theory Spec2Isabelle
  imports Complex_Main
begin

section \<open>Python exceptions as values\<close>

text \<open>
  Every exception the modelled code can raise is a value of \<open>error\<close>; a computation
  that may raise returns \<open>error + 'a\<close> with \<open>Inl\<close> for the exception. \<open>ebind\<close>
  sequences two such computations and stops at the first exception, as Python does.
  \<open>ShapeError\<close> stands for the exception \<open>jax\<close> raises on incompatible shapes or axes.
\<close>

datatype error =
    AssertionError | IndexError | TypeError | ValueError | ZeroDivisionError
  | UnboundLocalError | AttributeError | NotImplementedError | ShapeError

definition ebind :: "error + 'a \<Rightarrow> ('a \<Rightarrow> error + 'b) \<Rightarrow> error + 'b" where
  "ebind m f = (case m of Inl e \<Rightarrow> Inl e | Inr x \<Rightarrow> f x)"

fun sequence_e :: "(error + 'a) list \<Rightarrow> error + 'a list" where
  "sequence_e [] = Inr []"
| "sequence_e (m # ms) = ebind m (\<lambda>x. ebind (sequence_e ms) (\<lambda>xs. Inr (x # xs)))"

section \<open>Arrays\<close>

text \<open>
  A \<open>jax.numpy\<close> array is its shape and its elements by index; floats are idealised as
  reals. Only indices inside the shape are meaningful.
\<close>

record ndarray =
  shape :: "nat list"
  elem :: "nat list \<Rightarrow> real"

definition ndim :: "ndarray \<Rightarrow> nat" where
  "ndim a = length (shape a)"

definition asize :: "ndarray \<Rightarrow> nat" where
  "asize a = prod_list (shape a)"

text \<open>\<open>len(a)\<close>: the leading dimension; a 0-d array has no \<open>len\<close>.\<close>

definition len :: "ndarray \<Rightarrow> error + nat" where
  "len a = (case shape a of [] \<Rightarrow> Inl TypeError | n # _ \<Rightarrow> Inr n)"

text \<open>\<open>a[n]\<close> for an index inside the leading dimension.\<close>

definition slice :: "ndarray \<Rightarrow> nat \<Rightarrow> ndarray" where
  "slice a n = \<lparr>shape = tl (shape a), elem = (\<lambda>idx. elem a (n # idx))\<rparr>"

text \<open>\<open>c * jnp.ones(n)\<close> for a Python float \<open>c\<close>.\<close>

definition scaled_ones :: "real \<Rightarrow> nat \<Rightarrow> ndarray" where
  "scaled_ones c n = \<lparr>shape = [n], elem = (\<lambda>idx. c * 1)\<rparr>"

text \<open>\<open>jnp.array\<close> of a list of scalars, of a list of rows, and a 0-d array.\<close>

definition of_list :: "real list \<Rightarrow> ndarray" where
  "of_list xs = \<lparr>shape = [length xs],
     elem = (\<lambda>idx. case idx of [i] \<Rightarrow> xs ! i | _ \<Rightarrow> 0)\<rparr>"

definition of_rows :: "nat \<Rightarrow> real list list \<Rightarrow> ndarray" where
  "of_rows k rows = \<lparr>shape = [length rows, k],
     elem = (\<lambda>idx. case idx of [i, j] \<Rightarrow> rows ! i ! j | _ \<Rightarrow> 0)\<rparr>"

definition scalar :: "real \<Rightarrow> ndarray" where
  "scalar x = \<lparr>shape = [], elem = (\<lambda>idx. x)\<rparr>"

definition item :: "ndarray \<Rightarrow> real" where
  "item a = elem a []"

text \<open>\<open>a.sum(axis=0)\<close>: a 0-d array has no axis 0.\<close>

definition sum_axis0 :: "ndarray \<Rightarrow> error + ndarray" where
  "sum_axis0 a =
     (case shape a of
        [] \<Rightarrow> Inl ShapeError
      | n # sh \<Rightarrow> Inr \<lparr>shape = sh, elem = (\<lambda>idx. \<Sum>i\<leftarrow>[0..<n]. elem a (i # idx))\<rparr>)"

text \<open>\<open>a.sum()\<close> and \<open>jnp.sum(a)\<close>: the sum of all elements.\<close>

fun sum_over :: "nat list \<Rightarrow> (nat list \<Rightarrow> real) \<Rightarrow> real" where
  "sum_over [] f = f []"
| "sum_over (n # ns) f = (\<Sum>i\<leftarrow>[0..<n]. sum_over ns (\<lambda>idx. f (i # idx)))"

definition sum_all :: "ndarray \<Rightarrow> real" where
  "sum_all a = sum_over (shape a) (elem a)"

text \<open>
  Broadcasting of a binary operation: the shapes are aligned at their last dimensions,
  a dimension of size 1 is stretched, and any other mismatch is an error.
\<close>

fun broadcast_rev :: "nat list \<Rightarrow> nat list \<Rightarrow> nat list option" where
  "broadcast_rev [] ys = Some ys"
| "broadcast_rev (x # xs) [] = Some (x # xs)"
| "broadcast_rev (x # xs) (y # ys) =
     (if x = y \<or> y = 1 then map_option ((#) x) (broadcast_rev xs ys)
      else if x = 1 then map_option ((#) y) (broadcast_rev xs ys)
      else None)"

definition broadcast_shapes :: "nat list \<Rightarrow> nat list \<Rightarrow> nat list option" where
  "broadcast_shapes sa sb = map_option rev (broadcast_rev (rev sa) (rev sb))"

definition bindex :: "nat list \<Rightarrow> nat list \<Rightarrow> nat list" where
  "bindex sh idx =
     map2 (\<lambda>d i. if d = 1 then 0 else i) sh (drop (length idx - length sh) idx)"

definition elementwise ::
  "(real \<Rightarrow> real \<Rightarrow> real) \<Rightarrow> ndarray \<Rightarrow> ndarray \<Rightarrow> error + ndarray" where
  "elementwise f a b =
     (case broadcast_shapes (shape a) (shape b) of
        None \<Rightarrow> Inl ShapeError
      | Some sh \<Rightarrow> Inr \<lparr>shape = sh,
          elem = (\<lambda>idx. f (elem a (bindex (shape a) idx)) (elem b (bindex (shape b) idx)))\<rparr>)"

definition map_array :: "(real \<Rightarrow> real) \<Rightarrow> ndarray \<Rightarrow> ndarray" where
  "map_array f a = \<lparr>shape = shape a, elem = (\<lambda>idx. f (elem a idx))\<rparr>"

text \<open>\<open>a[0]\<close> with a literal index: out of range on a 0-d array or an empty axis.\<close>

definition index0 :: "ndarray \<Rightarrow> error + ndarray" where
  "index0 a =
     (case shape a of
        [] \<Rightarrow> Inl IndexError
      | n # _ \<Rightarrow> if n = 0 then Inl IndexError else Inr (slice a 0))"

text \<open>Rows \<open>idxs\<close> of the leading axis, in that order.\<close>

definition take_rows :: "nat list \<Rightarrow> ndarray \<Rightarrow> ndarray" where
  "take_rows idxs a = \<lparr>shape = length idxs # tl (shape a),
     elem = (\<lambda>idx. case idx of [] \<Rightarrow> 0 | b # r \<Rightarrow> elem a ((idxs ! b) # r))\<rparr>"

subsection \<open>vmap\<close>

text \<open>
  \<open>vmap(f)(xs)\<close> runs \<open>f\<close> once on an abstract element of the mapped axis, which fixes
  the shape of every output and raises what \<open>f\<close> raises even when the axis is empty;
  the outputs for the elements are stacked along a new leading axis.
\<close>

definition stack :: "nat list \<Rightarrow> ndarray list \<Rightarrow> ndarray" where
  "stack sh as = \<lparr>shape = length as # sh,
     elem = (\<lambda>idx. case idx of [] \<Rightarrow> 0 | i # r \<Rightarrow> elem (as ! i) r)\<rparr>"

definition vmap_trace :: "nat \<Rightarrow> (nat \<Rightarrow> error + 'a) \<Rightarrow> error + ('a \<times> 'a list)" where
  "vmap_trace n f =
     ebind (f 0) (\<lambda>a0. ebind (sequence_e (map f [0..<n])) (\<lambda>as. Inr (a0, as)))"

definition stack_out :: "ndarray \<times> ndarray list \<Rightarrow> error + ndarray" where
  "stack_out r =
     (case r of (a0, as) \<Rightarrow>
        if list_all (\<lambda>a. shape a = shape a0) as then Inr (stack (shape a0) as)
        else Inl ShapeError)"

text \<open>\<open>vmap(f)(jnp.arange(n))\<close>.\<close>

definition vmap_range :: "(nat \<Rightarrow> error + ndarray) \<Rightarrow> nat \<Rightarrow> error + ndarray" where
  "vmap_range f n = ebind (vmap_trace n f) stack_out"

text \<open>\<open>vmap(f)(xs)\<close> over the leading axis of one array.\<close>

definition vmap :: "(ndarray \<Rightarrow> error + ndarray) \<Rightarrow> ndarray \<Rightarrow> error + ndarray" where
  "vmap f xs =
     (case shape xs of
        [] \<Rightarrow> Inl ShapeError
      | n # _ \<Rightarrow> ebind (vmap_trace n (\<lambda>i. f (slice xs i))) stack_out)"

text \<open>
  \<open>vmap(f)(**kwargs)\<close>: every keyword argument is mapped over its leading axis, and
  the leading axes must agree.
\<close>

definition kwargs_len :: "(string \<times> ndarray) list \<Rightarrow> error + nat" where
  "kwargs_len kwargs =
     ebind (sequence_e (map (\<lambda>kv. case shape (snd kv) of [] \<Rightarrow> Inl ShapeError
                                    | n # _ \<Rightarrow> Inr n) kwargs))
       (\<lambda>ns. case ns of
                [] \<Rightarrow> Inl ShapeError
              | n # rest \<Rightarrow> if list_all (\<lambda>m. m = n) rest then Inr n else Inl ShapeError)"

definition kwargs_slice :: "(string \<times> ndarray) list \<Rightarrow> nat \<Rightarrow> (string \<times> ndarray) list" where
  "kwargs_slice kwargs b = map (\<lambda>kv. (fst kv, slice (snd kv) b)) kwargs"

definition vmap_kwargs ::
  "((string \<times> ndarray) list \<Rightarrow> error + ndarray) \<Rightarrow> (string \<times> ndarray) list
     \<Rightarrow> error + ndarray" where
  "vmap_kwargs f kwargs =
     ebind (kwargs_len kwargs)
       (\<lambda>n. ebind (vmap_trace n (\<lambda>b. f (kwargs_slice kwargs b))) stack_out)"

section \<open>Parameters\<close>

datatype bijector = SoftmaxCentered | Softplus | Invert bijector | Other_bijector nat

text \<open>
  Modelled from the spec: the class \<open>Parameter\<close> of \<open>ssm_jax.abstractions\<close>, which is not
  part of the sources: a constrained value, the bijector to the unconstrained
  representation and the frozen flag (data model, Parameter).
\<close>

record parameter =
  pvalue :: ndarray
  is_frozen :: bool
  bijector :: bijector

definition Parameter :: "ndarray \<Rightarrow> bool \<Rightarrow> bijector \<Rightarrow> parameter" where
  "Parameter v frozen b = \<lparr>pvalue = v, is_frozen = frozen, bijector = b\<rparr>"

section \<open>Distributions, posteriors and the inference primitives\<close>

text \<open>
  \<open>tfd.Categorical(probs=p)\<close> with its \<open>probs_parameter()\<close>, and an emission
  distribution with its \<open>log_prob\<close>.
\<close>

datatype categorical = Categorical (probs_parameter: ndarray)

datatype distribution = Distribution (log_prob: "ndarray \<Rightarrow> ndarray")

text \<open>
  The posterior the inference primitives return; \<open>e_step\<close> stacks one per sequence,
  which adds a leading batch axis to every field.
\<close>

record posterior =
  marginal_loglik :: ndarray
  filtered_probs :: ndarray
  smoothed_probs :: ndarray
  initial_probs :: ndarray
  trans_probs :: ndarray

text \<open>
  The primitives of \<open>ssm_jax.hmm.inference\<close>, which are not part of the sources, are
  parameters of the model: the filter, the two-filter smoother, and
  \<open>compute_transition_probs\<close> with its flag \<open>reduce_sum\<close>.
\<close>

record inference =
  hmm_filter :: "ndarray \<Rightarrow> ndarray \<Rightarrow> ndarray \<Rightarrow> posterior"
  hmm_two_filter_smoother :: "ndarray \<Rightarrow> ndarray \<Rightarrow> ndarray \<Rightarrow> posterior"
  compute_transition_probs :: "ndarray \<Rightarrow> posterior \<Rightarrow> bool \<Rightarrow> error + ndarray"

text \<open>
  Modelled from the spec: what \<open>compute_transition_probs\<close> does with \<open>reduce_sum\<close>
  (sections 4.3 and 6), for a given pairwise statistic per time step: the statistic is
  summed over time when \<open>reduce_sum\<close> holds and kept per time step otherwise.
\<close>

definition reduce_or_retain ::
  "(ndarray \<Rightarrow> posterior \<Rightarrow> ndarray) \<Rightarrow> ndarray \<Rightarrow> posterior \<Rightarrow> bool \<Rightarrow> error + ndarray" where
  "reduce_or_retain pw transition_matrices post reduce_sum =
     (if reduce_sum then sum_axis0 (pw transition_matrices post)
      else Inr (pw transition_matrices post))"

definition posterior_slice :: "posterior \<Rightarrow> nat \<Rightarrow> posterior" where
  "posterior_slice p n = \<lparr>
     marginal_loglik = slice (marginal_loglik p) n,
     filtered_probs = slice (filtered_probs p) n,
     smoothed_probs = slice (smoothed_probs p) n,
     initial_probs = slice (initial_probs p) n,
     trans_probs = slice (trans_probs p) n\<rparr>"

definition posterior_take_rows :: "nat list \<Rightarrow> posterior \<Rightarrow> posterior" where
  "posterior_take_rows idxs p = \<lparr>
     marginal_loglik = take_rows idxs (marginal_loglik p),
     filtered_probs = take_rows idxs (filtered_probs p),
     smoothed_probs = take_rows idxs (smoothed_probs p),
     initial_probs = take_rows idxs (initial_probs p),
     trans_probs = take_rows idxs (trans_probs p)\<rparr>"

definition stack_posteriors :: "posterior \<times> posterior list \<Rightarrow> error + posterior" where
  "stack_posteriors r =
     (case r of (p0, ps) \<Rightarrow>
        ebind (stack_out (marginal_loglik p0, map marginal_loglik ps)) (\<lambda>ml.
        ebind (stack_out (filtered_probs p0, map filtered_probs ps)) (\<lambda>fp.
        ebind (stack_out (smoothed_probs p0, map smoothed_probs ps)) (\<lambda>sp.
        ebind (stack_out (initial_probs p0, map initial_probs ps)) (\<lambda>ip.
        ebind (stack_out (trans_probs p0, map trans_probs ps)) (\<lambda>tp.
        Inr \<lparr>marginal_loglik = ml, filtered_probs = fp, smoothed_probs = sp,
             initial_probs = ip, trans_probs = tp\<rparr>))))))"

text \<open>\<open>vmap(f)(xs)\<close> for an \<open>f\<close> that returns a posterior.\<close>

definition vmap_posterior ::
  "(ndarray \<Rightarrow> error + posterior) \<Rightarrow> ndarray \<Rightarrow> error + posterior" where
  "vmap_posterior f xs =
     (case shape xs of
        [] \<Rightarrow> Inl ShapeError
      | n # _ \<Rightarrow> ebind (vmap_trace n (\<lambda>i. f (slice xs i))) stack_posteriors)"

text \<open>
  \<open>vmap(f)(xs, posteriors)\<close>: the leading axes of the emissions and of every field of
  the posteriors must agree.
\<close>

definition posterior_len :: "posterior \<Rightarrow> error + nat" where
  "posterior_len p =
     kwargs_len [(''marginal_loglik'', marginal_loglik p),
                 (''filtered_probs'', filtered_probs p),
                 (''smoothed_probs'', smoothed_probs p),
                 (''initial_probs'', initial_probs p),
                 (''trans_probs'', trans_probs p)]"

definition vmap2 ::
  "(ndarray \<Rightarrow> posterior \<Rightarrow> error + ndarray) \<Rightarrow> ndarray \<Rightarrow> posterior \<Rightarrow> error + ndarray" where
  "vmap2 f xs ps =
     (case shape xs of
        [] \<Rightarrow> Inl ShapeError
      | n # _ \<Rightarrow>
          ebind (posterior_len ps) (\<lambda>m.
            if m \<noteq> n then Inl ShapeError
            else ebind (vmap_trace n (\<lambda>i. f (slice xs i) (posterior_slice ps i))) stack_out))"

section \<open>BaseHMM\<close>

text \<open>
  The methods \<open>BaseHMM\<close> calls on \<open>self\<close> and does not define: the accessors of the
  unconstrained parameters and \<open>log_prior\<close> of the base class \<open>SSM\<close>, the three
  distributions a concrete model supplies, and the attribute \<open>_conditional_logliks\<close>,
  which neither class of the source defines (\<open>None\<close> when no other class does).
  \<open>'s\<close> is the state of the model object.
\<close>

record 's hmm_class =
  get_unconstrained_params :: "'s \<Rightarrow> ndarray list"
  set_unconstrained_params :: "ndarray list \<Rightarrow> 's \<Rightarrow> error + 's"
  log_prior :: "'s \<Rightarrow> real"
  initial_distribution :: "'s \<Rightarrow> categorical"
  transition_distribution :: "'s \<Rightarrow> nat \<Rightarrow> (string \<times> ndarray) list \<Rightarrow> error + categorical"
  emission_distribution :: "'s \<Rightarrow> nat \<Rightarrow> error + distribution"
  conditional_logliks_attr :: "('s \<Rightarrow> ndarray \<Rightarrow> error + ndarray) option"

definition num_states :: "'s hmm_class \<Rightarrow> 's \<Rightarrow> error + nat" where
  "num_states C self =
     (case shape (probs_parameter (initial_distribution C self)) of
        [] \<Rightarrow> Inl IndexError
      | k # _ \<Rightarrow> Inr k)"

definition compute_initial_probs :: "'s hmm_class \<Rightarrow> 's \<Rightarrow> ndarray" where
  "compute_initial_probs C self = probs_parameter (initial_distribution C self)"

definition compute_transition_matrices ::
  "'s hmm_class \<Rightarrow> 's \<Rightarrow> (string \<times> ndarray) list \<Rightarrow> error + ndarray" where
  "compute_transition_matrices C self covariates =
     (if length covariates > 0 then
        vmap_kwargs (\<lambda>covariate.
          ebind (num_states C self)
            (vmap_range (\<lambda>state.
               ebind (transition_distribution C self state covariate)
                 (\<lambda>d. Inr (probs_parameter d)))))
          covariates
      else
        ebind (num_states C self)
          (vmap_range (\<lambda>state.
             ebind (transition_distribution C self state [])
               (\<lambda>d. Inr (probs_parameter d)))))"

definition compute_conditional_logliks ::
  "'s hmm_class \<Rightarrow> 's \<Rightarrow> ndarray \<Rightarrow> error + ndarray" where
  "compute_conditional_logliks C self emissions =
     vmap (\<lambda>emission.
       ebind (num_states C self)
         (vmap_range (\<lambda>state.
            ebind (emission_distribution C self state)
              (\<lambda>d. Inr (log_prob d emission)))))
       emissions"

definition marginal_log_prob ::
  "inference \<Rightarrow> 's hmm_class \<Rightarrow> 's \<Rightarrow> ndarray \<Rightarrow> error + ndarray" where
  "marginal_log_prob I C self emissions =
     (let ip = compute_initial_probs C self in
      ebind (compute_transition_matrices C self []) (\<lambda>tm.
      ebind (compute_conditional_logliks C self emissions) (\<lambda>lls.
        let post = hmm_filter I ip tm lls;
            ll = marginal_loglik post
        in Inr ll)))"

definition filter_hmm ::
  "inference \<Rightarrow> 's hmm_class \<Rightarrow> 's \<Rightarrow> ndarray \<Rightarrow> error + posterior" where
  "filter_hmm I C self emissions =
     (let ip = compute_initial_probs C self in
      ebind (compute_transition_matrices C self []) (\<lambda>tm.
      ebind (compute_conditional_logliks C self emissions) (\<lambda>lls.
        Inr (hmm_filter I ip tm lls))))"

text \<open>\<open>e_step\<close>: \<open>_single_e_step\<close> for one sequence, mapped over the batch.\<close>

definition single_e_step ::
  "inference \<Rightarrow> 's hmm_class \<Rightarrow> 's \<Rightarrow> ndarray \<Rightarrow> error + posterior" where
  "single_e_step I C self emissions =
     ebind (compute_transition_matrices C self []) (\<lambda>transition_matrices.
       let ip = compute_initial_probs C self in
       ebind (compute_conditional_logliks C self emissions) (\<lambda>lls.
         let posterior = hmm_two_filter_smoother I ip transition_matrices lls in
         ebind (compute_transition_probs I transition_matrices posterior
                  (ndim transition_matrices = 2))
           (\<lambda>tp. Inr (posterior\<lparr>trans_probs := tp\<rparr>))))"

definition e_step ::
  "inference \<Rightarrow> 's hmm_class \<Rightarrow> 's \<Rightarrow> ndarray \<Rightarrow> error + posterior" where
  "e_step I C self batch_emissions = vmap_posterior (single_e_step I C self) batch_emissions"

subsection \<open>The optimizer\<close>

text \<open>
  The external libraries the training code calls are parameters of the model: the
  bijectors of \<open>tfb\<close> with the domain check of a constrained value, the mode of
  \<open>tfd.Dirichlet\<close>, and \<open>jnp.log\<close> on a scalar.
\<close>

record library =
  tfb_forward :: "bijector \<Rightarrow> ndarray \<Rightarrow> ndarray"
  tfb_inverse :: "bijector \<Rightarrow> ndarray \<Rightarrow> ndarray"
  in_domain :: "bijector \<Rightarrow> ndarray \<Rightarrow> bool"
  dirichlet_mode :: "ndarray \<Rightarrow> ndarray"
  jnp_log :: "real \<Rightarrow> real"

text \<open>
  An \<open>optax\<close> optimizer: its initial state, and one update of the parameters along
  the gradient of an objective. A pytree of data sets is its length and its rows.
  The settings collect the permutation \<open>jax.random\<close> draws for a key, an epoch and a
  length, and the defaults of \<open>run_sgd\<close> for the arguments \<open>m_step\<close> leaves out.
\<close>

record 'o optimizer =
  opt_init :: "ndarray list \<Rightarrow> 'o"
  opt_step :: "(ndarray list \<Rightarrow> real) \<Rightarrow> ndarray list \<Rightarrow> 'o \<Rightarrow> ndarray list \<times> 'o"

record 'd pytree =
  tree_len :: "'d \<Rightarrow> error + nat"
  tree_rows :: "nat list \<Rightarrow> 'd \<Rightarrow> 'd"

record sgd_settings =
  permutation :: "nat \<Rightarrow> nat \<Rightarrow> nat \<Rightarrow> nat list"
  default_batch_size :: nat
  default_shuffle :: bool
  default_key :: nat

definition array_tree :: "ndarray pytree" where
  "array_tree = \<lparr>tree_len = len, tree_rows = take_rows\<rparr>"

definition pair_tree :: "(ndarray \<times> posterior) pytree" where
  "pair_tree = \<lparr>
     tree_len = (\<lambda>d. ebind (len (fst d)) (\<lambda>n. ebind (posterior_len (snd d))
                   (\<lambda>m. if m = n then Inr n else Inl ShapeError))),
     tree_rows = (\<lambda>idxs d. (take_rows idxs (fst d), posterior_take_rows idxs (snd d)))\<rparr>"

text \<open>
  Modelled from the spec: \<open>run_sgd\<close> of \<open>ssm_jax.optimize\<close>, which is not part of the
  sources (sections 4.4, 4.6 and 6). For a fixed number of epochs the data set is cut
  into minibatches of \<open>batch_size\<close> whole rows, in order or in the order of a
  permutation drawn from the key; on each minibatch the loss is evaluated, which may
  change the model object, and the optimizer updates the parameters. It returns the
  final parameters and the loss of every step. \<open>chunks\<close> cuts a list of row indices
  into minibatches, \<open>foldM_e\<close> runs the steps in order and stops at the first exception.
\<close>

function chunks :: "nat \<Rightarrow> 'a list \<Rightarrow> 'a list list" where
  "chunks n xs = (if n = 0 \<or> xs = [] then [] else take n xs # chunks n (drop n xs))"
  by pat_completeness auto
termination
  by (relation "measure (\<lambda>p. length (snd p))") auto

declare chunks.simps [simp del]

fun foldM_e :: "('b \<Rightarrow> 'a \<Rightarrow> error + 'b) \<Rightarrow> 'b \<Rightarrow> 'a list \<Rightarrow> error + 'b" where
  "foldM_e f acc [] = Inr acc"
| "foldM_e f acc (x # xs) = ebind (f acc x) (\<lambda>acc'. foldM_e f acc' xs)"

definition minibatches ::
  "sgd_settings \<Rightarrow> 'd pytree \<Rightarrow> 'd \<Rightarrow> nat \<Rightarrow> int \<Rightarrow> bool \<Rightarrow> nat \<Rightarrow> nat \<Rightarrow> 'd list" where
  "minibatches S T dataset batch_size num_epochs shuffle key n =
     concat (map (\<lambda>epoch.
       map (\<lambda>idxs. tree_rows T idxs dataset)
         (chunks batch_size (if shuffle then permutation S key epoch n else [0..<n])))
       [0..<nat num_epochs])"

definition sgd_step ::
  "'o optimizer \<Rightarrow> (ndarray list \<Rightarrow> 'd \<Rightarrow> 's \<Rightarrow> error + real \<times> 's)
     \<Rightarrow> ndarray list \<times> 'o \<times> real list \<times> 's \<Rightarrow> 'd
     \<Rightarrow> error + ndarray list \<times> 'o \<times> real list \<times> 's" where
  "sgd_step opt loss_fn st minibatch =
     (case st of (params, ostate, losses, self) \<Rightarrow>
        ebind (loss_fn params minibatch self) (\<lambda>r.
          let objective = (\<lambda>p. case loss_fn p minibatch self of
                                  Inr v \<Rightarrow> fst v | Inl e \<Rightarrow> 0);
              upd = opt_step opt objective params ostate
          in Inr (fst upd, snd upd, losses @ [fst r], snd r)))"

definition run_sgd ::
  "sgd_settings \<Rightarrow> 'd pytree \<Rightarrow> (ndarray list \<Rightarrow> 'd \<Rightarrow> 's \<Rightarrow> error + real \<times> 's)
     \<Rightarrow> ndarray list \<Rightarrow> 'd \<Rightarrow> 'o optimizer \<Rightarrow> nat \<Rightarrow> int \<Rightarrow> bool \<Rightarrow> nat \<Rightarrow> 's
     \<Rightarrow> error + (ndarray list \<times> ndarray) \<times> 's" where
  "run_sgd S T loss_fn params dataset opt batch_size num_epochs shuffle key self =
     ebind (tree_len T dataset) (\<lambda>n.
       ebind (foldM_e (sgd_step opt loss_fn) (params, opt_init opt params, [], self)
                (minibatches S T dataset batch_size num_epochs shuffle key n))
         (\<lambda>st. case st of (params', ostate, losses, self') \<Rightarrow>
                  Inr ((params', of_list losses), self')))"

subsection \<open>The M-step by gradient descent\<close>

text \<open>
  \<open>len(a) / len(b)\<close> on Python integers: true division, which raises on a zero
  divisor.
\<close>

definition len_ratio :: "ndarray \<Rightarrow> ndarray \<Rightarrow> error + real" where
  "len_ratio a b =
     ebind (len a) (\<lambda>n. ebind (len b) (\<lambda>m.
       if m = 0 then Inl ZeroDivisionError else Inr (real n / real m)))"

definition single_expected_log_joint ::
  "library \<Rightarrow> 's hmm_class \<Rightarrow> 's \<Rightarrow> ndarray \<Rightarrow> posterior \<Rightarrow> error + ndarray" where
  "single_expected_log_joint L C self emissions post =
     (let ip = compute_initial_probs C self in
      ebind (compute_transition_matrices C self []) (\<lambda>trans_matrices.
      ebind (compute_conditional_logliks C self emissions) (\<lambda>log_likelihoods.
        let expected_states = smoothed_probs post;
            tp = trans_probs post
        in
        ebind (index0 expected_states) (\<lambda>es0.
        ebind (elementwise (*) es0 (map_array (jnp_log L) ip)) (\<lambda>t1.
        ebind (elementwise (*) tp (map_array (jnp_log L) trans_matrices)) (\<lambda>t2.
        ebind (elementwise (*) expected_states log_likelihoods) (\<lambda>t3.
          Inr (scalar (sum_all t1 + sum_all t2 + sum_all t3)))))))))"

definition neg_expected_log_joint ::
  "library \<Rightarrow> 's hmm_class \<Rightarrow> ndarray \<Rightarrow> ndarray list \<Rightarrow> ndarray \<times> posterior \<Rightarrow> 's
     \<Rightarrow> error + real \<times> 's" where
  "neg_expected_log_joint L C batch_emissions params minibatch self =
     (case minibatch of (minibatch_emissions, minibatch_posteriors) \<Rightarrow>
        ebind (len_ratio batch_emissions minibatch_emissions) (\<lambda>scale.
        ebind (set_unconstrained_params C params self) (\<lambda>self1.
          let lprior = log_prior C self1 in
          ebind (vmap2 (single_expected_log_joint L C self1)
                   minibatch_emissions minibatch_posteriors) (\<lambda>minibatch_lps.
            let expected_log_joint = lprior + sum_all minibatch_lps * scale
            in Inr (- expected_log_joint / real (asize batch_emissions), self1)))))"

definition BaseHMM_m_step ::
  "library \<Rightarrow> sgd_settings \<Rightarrow> 's hmm_class \<Rightarrow> ndarray \<Rightarrow> posterior \<Rightarrow> 'o optimizer \<Rightarrow> int
     \<Rightarrow> 's \<Rightarrow> error + 's" where
  "BaseHMM_m_step L S C batch_emissions batch_posteriors opt num_mstep_iters self =
     ebind (run_sgd S pair_tree (neg_expected_log_joint L C batch_emissions)
              (get_unconstrained_params C self) (batch_emissions, batch_posteriors) opt
              (default_batch_size S) num_mstep_iters (default_shuffle S) (default_key S) self)
       (\<lambda>r. set_unconstrained_params C (fst (fst r)) (snd r))"

subsection \<open>The training loops\<close>

text \<open>
  \<open>fit_em\<close>: \<open>m_step\<close> is the method of the object's own class (\<open>self.m_step\<close>), with
  its keyword arguments applied. \<open>jit\<close> does not change what \<open>em_step\<close> computes.
\<close>

definition em_step ::
  "inference \<Rightarrow> 's hmm_class \<Rightarrow> (ndarray \<Rightarrow> posterior \<Rightarrow> 's \<Rightarrow> error + 's) \<Rightarrow> ndarray
     \<Rightarrow> ndarray list \<Rightarrow> 's \<Rightarrow> error + (ndarray list \<times> real) \<times> 's" where
  "em_step I C m_step batch_emissions params self =
     ebind (set_unconstrained_params C params self) (\<lambda>self1.
     ebind (e_step I C self1 batch_emissions) (\<lambda>batch_posteriors.
       let lp = log_prior C self1 + sum_all (marginal_loglik batch_posteriors) in
       ebind (m_step batch_emissions batch_posteriors self1) (\<lambda>self2.
         Inr ((get_unconstrained_params C self2, lp), self2))))"

fun em_loop ::
  "inference \<Rightarrow> 's hmm_class \<Rightarrow> (ndarray \<Rightarrow> posterior \<Rightarrow> 's \<Rightarrow> error + 's) \<Rightarrow> ndarray
     \<Rightarrow> nat \<Rightarrow> ndarray list \<times> real list \<times> 's \<Rightarrow> error + ndarray list \<times> real list \<times> 's" where
  "em_loop I C m_step batch_emissions 0 st = Inr st"
| "em_loop I C m_step batch_emissions (Suc n) (params, log_probs, self) =
     ebind (em_step I C m_step batch_emissions params self) (\<lambda>r.
       em_loop I C m_step batch_emissions n (fst (fst r), log_probs @ [snd (fst r)], snd r))"

definition fit_em ::
  "inference \<Rightarrow> 's hmm_class \<Rightarrow> (ndarray \<Rightarrow> posterior \<Rightarrow> 's \<Rightarrow> error + 's) \<Rightarrow> ndarray
     \<Rightarrow> int \<Rightarrow> 's \<Rightarrow> error + ndarray \<times> 's" where
  "fit_em I C m_step batch_emissions num_iters self =
     ebind (em_loop I C m_step batch_emissions (nat num_iters)
              (get_unconstrained_params C self, [], self))
       (\<lambda>st. case st of (params, log_probs, self') \<Rightarrow>
          ebind (set_unconstrained_params C params self')
            (\<lambda>self''. Inr (of_list log_probs, self'')))"

definition loss_fn ::
  "inference \<Rightarrow> 's hmm_class \<Rightarrow> ndarray \<Rightarrow> ndarray list \<Rightarrow> ndarray \<Rightarrow> 's
     \<Rightarrow> error + real \<times> 's" where
  "loss_fn I C batch_emissions params minibatch_emissions self =
     ebind (set_unconstrained_params C params self) (\<lambda>self1.
     ebind (len_ratio batch_emissions minibatch_emissions) (\<lambda>scale.
     ebind (vmap (marginal_log_prob I C self1) minibatch_emissions) (\<lambda>minibatch_lls.
       let lp = log_prior C self1 + sum_all minibatch_lls * scale
       in Inr (- lp / real (asize batch_emissions), self1))))"

definition fit_sgd ::
  "inference \<Rightarrow> sgd_settings \<Rightarrow> 's hmm_class \<Rightarrow> ndarray \<Rightarrow> 'o optimizer \<Rightarrow> nat \<Rightarrow> int
     \<Rightarrow> bool \<Rightarrow> nat \<Rightarrow> 's \<Rightarrow> error + ndarray \<times> 's" where
  "fit_sgd I S C batch_emissions opt batch_size num_epochs shuffle key self =
     ebind (run_sgd S array_tree (loss_fn I C batch_emissions)
              (get_unconstrained_params C self) batch_emissions opt
              batch_size num_epochs shuffle key self)
       (\<lambda>r. ebind (set_unconstrained_params C (fst (fst r)) (snd r))
               (\<lambda>self'. Inr (snd (fst r), self')))"

section \<open>StandardHMM: construction\<close>

text \<open>
  The attributes \<open>__init__\<close> stores, and the Parameters a concrete subclass adds for
  its emission model.
\<close>

record standard_hmm =
  hmm_initial_probs :: parameter
  hmm_transition_matrix :: parameter
  hmm_initial_probs_concentration :: parameter
  hmm_transition_matrix_concentration :: parameter
  hmm_emission_params :: "parameter list"

text \<open>
  \<open>StandardHMM.__init__\<close>: \<open>transition_matrix.shape[-1]\<close> raises IndexError on a 0-d
  array; the two asserts follow in the order of the source.
\<close>

definition StandardHMM_init ::
  "ndarray \<Rightarrow> ndarray \<Rightarrow> real \<Rightarrow> real \<Rightarrow> error + standard_hmm" where
  "StandardHMM_init initial_probabilities transition_matrix
      initial_probs_concentration transition_matrix_concentration =
     (case rev (shape transition_matrix) of
        [] \<Rightarrow> Inl IndexError
      | K # _ \<Rightarrow>
          if shape initial_probabilities \<noteq> [K] then Inl AssertionError
          else if shape transition_matrix \<noteq> [K, K] then Inl AssertionError
          else Inr \<lparr>
            hmm_initial_probs =
              Parameter initial_probabilities False (Invert SoftmaxCentered),
            hmm_transition_matrix =
              Parameter transition_matrix False (Invert SoftmaxCentered),
            hmm_initial_probs_concentration =
              Parameter (scaled_ones initial_probs_concentration K) True
                (Invert Softplus),
            hmm_transition_matrix_concentration =
              Parameter (scaled_ones transition_matrix_concentration K) True
                (Invert Softplus),
            hmm_emission_params = []\<rparr>)"

section \<open>StandardHMM: the model object as an SSM\<close>

text \<open>
  Modelled from the spec: the accessors of \<open>Parameter\<close> and of the base class \<open>SSM\<close>
  in \<open>ssm_jax.abstractions\<close>, which is not part of the sources (sections 3 and 4.1).
  The setter of a Parameter's value checks the value against the bijector's domain and
  stores it. The unconstrained value is the bijector applied to the constrained one.
  The flattened unconstrained parameters are the unconstrained values of the
  Parameters that are not frozen; setting them writes the inverse images back into
  those Parameters and leaves the frozen ones alone.
\<close>

definition set_value :: "library \<Rightarrow> ndarray \<Rightarrow> parameter \<Rightarrow> error + parameter" where
  "set_value L v p =
     (if in_domain L (bijector p) v then Inr (p\<lparr>pvalue := v\<rparr>) else Inl ValueError)"

definition unconstrained_value :: "library \<Rightarrow> parameter \<Rightarrow> ndarray" where
  "unconstrained_value L p = tfb_forward L (bijector p) (pvalue p)"

definition parameters :: "standard_hmm \<Rightarrow> parameter list" where
  "parameters self =
     [hmm_initial_probs self, hmm_transition_matrix self,
      hmm_initial_probs_concentration self, hmm_transition_matrix_concentration self]
     @ hmm_emission_params self"

definition with_parameters :: "parameter list \<Rightarrow> standard_hmm \<Rightarrow> standard_hmm" where
  "with_parameters ps self =
     (case ps of
        a # b # c # d # es \<Rightarrow> \<lparr>hmm_initial_probs = a, hmm_transition_matrix = b,
          hmm_initial_probs_concentration = c, hmm_transition_matrix_concentration = d,
          hmm_emission_params = es\<rparr>
      | _ \<Rightarrow> self)"

fun write_back :: "library \<Rightarrow> parameter list \<Rightarrow> ndarray list \<Rightarrow> error + parameter list" where
  "write_back L [] [] = Inr []"
| "write_back L [] (v # vs) = Inl ValueError"
| "write_back L (p # ps) vs =
     (if is_frozen p then ebind (write_back L ps vs) (\<lambda>ps'. Inr (p # ps'))
      else (case vs of
              [] \<Rightarrow> Inl ValueError
            | v # vs' \<Rightarrow>
                ebind (set_value L (tfb_inverse L (bijector p) v) p) (\<lambda>p'.
                ebind (write_back L ps vs') (\<lambda>ps'. Inr (p' # ps')))))"

definition SSM_unconstrained_params :: "library \<Rightarrow> standard_hmm \<Rightarrow> ndarray list" where
  "SSM_unconstrained_params L self =
     map (unconstrained_value L) (filter (\<lambda>p. \<not> is_frozen p) (parameters self))"

definition SSM_set_unconstrained_params ::
  "library \<Rightarrow> ndarray list \<Rightarrow> standard_hmm \<Rightarrow> error + standard_hmm" where
  "SSM_set_unconstrained_params L vs self =
     ebind (write_back L (parameters self) vs) (\<lambda>ps. Inr (with_parameters ps self))"

text \<open>
  The distributions \<open>StandardHMM\<close> defines. \<open>transition_distribution\<close> takes no
  covariates, so a call with keyword arguments is a TypeError; \<open>emission_distribution\<close>
  is abstract. The state that indexes the transition matrix is a traced value under
  \<open>vmap\<close>, on which \<open>jax\<close> raises no IndexError.
\<close>

definition StandardHMM_initial_distribution :: "standard_hmm \<Rightarrow> categorical" where
  "StandardHMM_initial_distribution self = Categorical (pvalue (hmm_initial_probs self))"

definition StandardHMM_transition_distribution ::
  "standard_hmm \<Rightarrow> nat \<Rightarrow> (string \<times> ndarray) list \<Rightarrow> error + categorical" where
  "StandardHMM_transition_distribution self state covariates =
     (if covariates \<noteq> [] then Inl TypeError
      else Inr (Categorical (slice (pvalue (hmm_transition_matrix self)) state)))"

definition StandardHMM_emission_distribution :: "standard_hmm \<Rightarrow> nat \<Rightarrow> error + distribution" where
  "StandardHMM_emission_distribution self state = Inl NotImplementedError"

text \<open>
  The class of a model object built on \<open>StandardHMM\<close>: \<open>log_prior\<close> comes from \<open>SSM\<close>,
  the emission distribution from the concrete subclass, and \<open>cl\<close> is what the attribute
  \<open>_conditional_logliks\<close> resolves to, if anything.
\<close>

definition StandardHMM_class ::
  "library \<Rightarrow> (standard_hmm \<Rightarrow> real) \<Rightarrow> (standard_hmm \<Rightarrow> nat \<Rightarrow> error + distribution)
     \<Rightarrow> (standard_hmm \<Rightarrow> ndarray \<Rightarrow> error + ndarray) option \<Rightarrow> standard_hmm hmm_class" where
  "StandardHMM_class L prior emission cl = \<lparr>
     get_unconstrained_params = SSM_unconstrained_params L,
     set_unconstrained_params = SSM_set_unconstrained_params L,
     log_prior = prior,
     initial_distribution = StandardHMM_initial_distribution,
     transition_distribution = StandardHMM_transition_distribution,
     emission_distribution = emission,
     conditional_logliks_attr = cl\<rparr>"

section \<open>StandardHMM: the M-step\<close>

definition m_step_initial_probs ::
  "library \<Rightarrow> ndarray \<Rightarrow> posterior \<Rightarrow> standard_hmm \<Rightarrow> error + standard_hmm" where
  "m_step_initial_probs L batch_emissions batch_posteriors self =
     ebind (sum_axis0 (initial_probs batch_posteriors)) (\<lambda>counts.
     ebind (elementwise (+) (pvalue (hmm_initial_probs_concentration self)) counts) (\<lambda>conc.
     ebind (set_value L (dirichlet_mode L conc) (hmm_initial_probs self)) (\<lambda>p.
       Inr (self\<lparr>hmm_initial_probs := p\<rparr>))))"

definition m_step_transition_matrix ::
  "library \<Rightarrow> ndarray \<Rightarrow> posterior \<Rightarrow> standard_hmm \<Rightarrow> error + standard_hmm" where
  "m_step_transition_matrix L batch_emissions batch_posteriors self =
     ebind (sum_axis0 (trans_probs batch_posteriors)) (\<lambda>counts.
     ebind (elementwise (+) (pvalue (hmm_transition_matrix_concentration self)) counts)
       (\<lambda>conc.
     ebind (set_value L (dirichlet_mode L conc) (hmm_transition_matrix self)) (\<lambda>p.
       Inr (self\<lparr>hmm_transition_matrix := p\<rparr>))))"

text \<open>
  Reading a local variable: \<open>None\<close> is a local that no assignment has bound yet, and
  reading it raises UnboundLocalError. Calling a method by name raises AttributeError
  when no class defines it.
\<close>

definition load_local :: "'a option \<Rightarrow> error + 'a" where
  "load_local v = (case v of None \<Rightarrow> Inl UnboundLocalError | Some x \<Rightarrow> Inr x)"

definition call_conditional_logliks :: "'s hmm_class \<Rightarrow> 's \<Rightarrow> ndarray \<Rightarrow> error + ndarray" where
  "call_conditional_logliks C self emissions =
     (case conditional_logliks_attr C of
        None \<Rightarrow> Inl AttributeError
      | Some f \<Rightarrow> f self emissions)"

text \<open>
  \<open>_single_expected_log_like\<close>: \<open>lp\<close> is a local of the helper, because the helper
  assigns it, and nothing binds it before \<open>lp += ...\<close> reads it.
\<close>

definition single_expected_log_like ::
  "'s hmm_class \<Rightarrow> 's \<Rightarrow> ndarray \<Rightarrow> posterior \<Rightarrow> error + ndarray" where
  "single_expected_log_like C self emissions post =
     (let lp = (None :: real option) in
      ebind (call_conditional_logliks C self emissions) (\<lambda>log_likelihoods.
        let expected_states = smoothed_probs post in
        ebind (load_local lp) (\<lambda>lp0.
        ebind (elementwise (*) expected_states log_likelihoods) (\<lambda>t.
          let lp = Some (lp0 + sum_all t) in
          ebind (load_local lp) (\<lambda>r. Inr (scalar r))))))"

definition neg_expected_log_joint_emissions ::
  "'s hmm_class \<Rightarrow> ndarray \<Rightarrow> ndarray list \<Rightarrow> ndarray \<times> posterior \<Rightarrow> 's
     \<Rightarrow> error + real \<times> 's" where
  "neg_expected_log_joint_emissions C batch_emissions params minibatch self =
     (case minibatch of (minibatch_emissions, minibatch_posteriors) \<Rightarrow>
        ebind (len_ratio batch_emissions minibatch_emissions) (\<lambda>scale.
        ebind (set_unconstrained_params C params self) (\<lambda>self1.
          let lprior = log_prior C self1 in
          ebind (vmap2 (single_expected_log_like C self1)
                   minibatch_emissions minibatch_posteriors) (\<lambda>minibatch_ells.
            let expected_log_joint = lprior + sum_all minibatch_ells * scale
            in Inr (- expected_log_joint / real (asize batch_emissions), self1)))))"

definition m_step_emissions ::
  "sgd_settings \<Rightarrow> 's hmm_class \<Rightarrow> ndarray \<Rightarrow> posterior \<Rightarrow> 'o optimizer \<Rightarrow> int \<Rightarrow> 's
     \<Rightarrow> error + 's" where
  "m_step_emissions S C batch_emissions batch_posteriors opt num_mstep_iters self =
     ebind (run_sgd S pair_tree (neg_expected_log_joint_emissions C batch_emissions)
              (get_unconstrained_params C self) (batch_emissions, batch_posteriors) opt
              (default_batch_size S) num_mstep_iters (default_shuffle S) (default_key S) self)
       (\<lambda>r. set_unconstrained_params C (fst (fst r)) (snd r))"

definition StandardHMM_m_step ::
  "library \<Rightarrow> sgd_settings \<Rightarrow> standard_hmm hmm_class \<Rightarrow> ndarray \<Rightarrow> posterior \<Rightarrow> 'o optimizer
     \<Rightarrow> int \<Rightarrow> standard_hmm \<Rightarrow> error + standard_hmm" where
  "StandardHMM_m_step L S C batch_emissions batch_posteriors opt num_mstep_iters self =
     ebind (m_step_initial_probs L batch_emissions batch_posteriors self) (\<lambda>self1.
     ebind (m_step_transition_matrix L batch_emissions batch_posteriors self1) (\<lambda>self2.
       m_step_emissions S C batch_emissions batch_posteriors opt num_mstep_iters self2))"

section \<open>Example models\<close>

text \<open>
  A model whose transitions depend on a covariate \<open>u\<close>: from every state the chain
  moves to state 0 with probability \<open>u\<close>. It has two states and no parameters.
\<close>

definition cov_class :: "unit hmm_class" where
  "cov_class = \<lparr>
     get_unconstrained_params = (\<lambda>self. []),
     set_unconstrained_params = (\<lambda>params self. Inr self),
     log_prior = (\<lambda>self. 0),
     initial_distribution = (\<lambda>self. Categorical (of_list [1/2, 1/2])),
     transition_distribution = (\<lambda>self state covariate.
        case covariate of
          [] \<Rightarrow> Inr (Categorical (of_list [1/2, 1/2]))
        | kv # _ \<Rightarrow> Inr (Categorical (of_list [item (snd kv), 1 - item (snd kv)]))),
     emission_distribution = (\<lambda>self state. Inr (Distribution (\<lambda>e. scalar (- real state)))),
     conditional_logliks_attr = None\<rparr>"

definition cov_u :: "(string \<times> ndarray) list" where
  "cov_u = [(''u'', of_list [1/4, 3/4, 1])]"

definition ex_initial_probs :: ndarray where
  "ex_initial_probs = of_list [1/2, 1/2]"

definition ex_transition_matrix :: ndarray where
  "ex_transition_matrix = of_rows 2 [[9/10, 1/10], [1/10, 9/10]]"

text \<open>
  Stand-ins for the inference primitives: the posterior repeats the conditional
  log-likelihoods as probabilities, the marginal log-likelihood is their sum, and the
  pairwise statistic repeats the transition matrices for each of the \<open>T - 1\<close> steps.
\<close>

definition ex_pairwise :: "ndarray \<Rightarrow> posterior \<Rightarrow> ndarray" where
  "ex_pairwise tm post =
     \<lparr>shape = (hd (shape (smoothed_probs post)) - 1) # shape tm,
      elem = (\<lambda>idx. case idx of [] \<Rightarrow> 0 | t # r \<Rightarrow> elem tm r)\<rparr>"

definition ex_inference :: inference where
  "ex_inference = \<lparr>
     hmm_filter = (\<lambda>ip tm lls. \<lparr>marginal_loglik = scalar (sum_all lls), filtered_probs = lls,
        smoothed_probs = lls, initial_probs = ip, trans_probs = tm\<rparr>),
     hmm_two_filter_smoother = (\<lambda>ip tm lls. \<lparr>marginal_loglik = scalar (sum_all lls),
        filtered_probs = lls, smoothed_probs = lls, initial_probs = ip, trans_probs = tm\<rparr>),
     compute_transition_probs = reduce_or_retain ex_pairwise\<rparr>"

text \<open>Two sequences of three scalar emissions.\<close>

definition ex_batch :: ndarray where
  "ex_batch = of_rows 3 [[0, 1, 1], [1, 0, 0]]"

text \<open>
  A model whose transition distribution from a state is a batch of two categorical
  distributions, so that the transition statistic has rank 3.
\<close>

definition rank3_class :: "unit hmm_class" where
  "rank3_class = cov_class\<lparr>transition_distribution :=
     (\<lambda>self state covariate. Inr (Categorical (of_rows 2 [[1/2, 1/2], [1/4, 3/4]])))\<rparr>"

text \<open>
  Modelled from the spec: the closed form of the mode of a Dirichlet distribution,
  \<open>(\<alpha>\<^sub>i - 1) / (\<Sum>\<alpha> - K)\<close> along the last axis (section 4.4). It is the mode when
  every concentration of a row is above 1; the example library uses it.
\<close>

definition dirichlet_mode_closed_form :: "ndarray \<Rightarrow> ndarray" where
  "dirichlet_mode_closed_form c = \<lparr>shape = shape c,
     elem = (\<lambda>idx. (elem c idx - 1) /
        ((\<Sum>j\<leftarrow>[0..<last (shape c)]. elem c (butlast idx @ [j])) - real (last (shape c))))\<rparr>"

text \<open>
  An example library: identity bijectors with no domain restriction, the closed form
  of the Dirichlet mode, and the natural logarithm.
\<close>

definition ex_library :: library where
  "ex_library = \<lparr>
     tfb_forward = (\<lambda>b a. a),
     tfb_inverse = (\<lambda>b a. a),
     in_domain = (\<lambda>b a. True),
     dirichlet_mode = dirichlet_mode_closed_form,
     jnp_log = ln\<rparr>"

text \<open>
  The object \<open>StandardHMM.__init__\<close> builds for the example arrays and the default
  concentrations, with one Parameter of a subclass for the emission means.
\<close>

definition ex_hmm :: standard_hmm where
  "ex_hmm = \<lparr>
     hmm_initial_probs = Parameter ex_initial_probs False (Invert SoftmaxCentered),
     hmm_transition_matrix = Parameter ex_transition_matrix False (Invert SoftmaxCentered),
     hmm_initial_probs_concentration = Parameter (scaled_ones (11/10) 2) True (Invert Softplus),
     hmm_transition_matrix_concentration =
       Parameter (scaled_ones (11/10) 2) True (Invert Softplus),
     hmm_emission_params = [Parameter (of_list [0, 1]) False (Other_bijector 0)]\<rparr>"

text \<open>Posteriors for a batch of two sequences of length three over two states.\<close>

definition ex_posteriors :: posterior where
  "ex_posteriors = \<lparr>
     marginal_loglik = of_list [-2, -3],
     filtered_probs = stack [3, 2] [of_rows 2 [[1, 0], [0, 1], [0, 1]],
                                   of_rows 2 [[0, 1], [1, 0], [1, 0]]],
     smoothed_probs = stack [3, 2] [of_rows 2 [[1, 0], [0, 1], [0, 1]],
                                   of_rows 2 [[0, 1], [1, 0], [1, 0]]],
     initial_probs = of_rows 2 [[1, 0], [1, 0]],
     trans_probs = stack [2, 2] [of_rows 2 [[0, 1], [0, 1]], of_rows 2 [[0, 1], [1, 0]]]\<rparr>"



text \<open>
  An optimizer that leaves the parameters where they are, and settings of \<open>run_sgd\<close>
  whose shuffling reverses the order of the sequences.
\<close>

definition ex_optimizer :: "unit optimizer" where
  "ex_optimizer = \<lparr>opt_init = (\<lambda>params. ()), opt_step = (\<lambda>objective params ostate. (params, ostate))\<rparr>"

definition ex_settings :: sgd_settings where
  "ex_settings = \<lparr>permutation = (\<lambda>key epoch n. rev [0..<n]), default_batch_size = 1,
     default_shuffle = False, default_key = 0\<rparr>"

text \<open>
  The frame of an update of the Parameters of a model object: position by position,
  the frozen flag and the bijector stay, and a frozen Parameter stays as it is.
\<close>

abbreviation frame :: "parameter list \<Rightarrow> parameter list \<Rightarrow> bool" where
  "frame \<equiv> list_all2 (\<lambda>p p'. is_frozen p' = is_frozen p \<and> bijector p' = bijector p \<and>
                          (is_frozen p \<longrightarrow> p' = p))"

text \<open>
  An emission model for the example object, with log-density \<open>-(e - mean\<^sub>k)\<^sup>2\<close> in
  state \<open>k\<close>, and the class of the example object.
\<close>

definition ex_emission :: "standard_hmm \<Rightarrow> nat \<Rightarrow> error + distribution" where
  "ex_emission self state =
     (case hmm_emission_params self of
        [] \<Rightarrow> Inl NotImplementedError
      | means # _ \<Rightarrow>
          Inr (Distribution (\<lambda>e. scalar (- (item e - elem (pvalue means) [state])\<^sup>2))))"

definition ex_class :: "standard_hmm hmm_class" where
  "ex_class = StandardHMM_class ex_library (\<lambda>self. 0) ex_emission None"

section \<open>Properties\<close>

subsection \<open>Exceptions, arrays and vmap\<close>

lemma ebind_simps [simp]: "ebind (Inr x) f = f x" "ebind (Inl e) f = Inl e"
  by (simp_all add: ebind_def)

lemma ebind_eq_Inr: "ebind m f = Inr y \<longleftrightarrow> (\<exists>x. m = Inr x \<and> f x = Inr y)"
  by (cases m) simp_all

lemma sequence_e_map_Inr:
  "(\<And>x. x \<in> set xs \<Longrightarrow> f x = Inr (g x)) \<Longrightarrow> sequence_e (map f xs) = Inr (map g xs)"
  by (induction xs) simp_all

lemma vmap_trace_Inr:
  "(\<And>i. f i = Inr (g i)) \<Longrightarrow> vmap_trace n f = Inr (g 0, map g [0..<n])"
  by (simp add: vmap_trace_def sequence_e_map_Inr)

lemma shape_stack [simp]: "shape (stack sh as) = length as # sh"
  by (simp add: stack_def)

lemma slice_stack:
  "i < length as \<Longrightarrow> shape (as ! i) = sh \<Longrightarrow> slice (stack sh as) i = as ! i"
  by (simp add: slice_def stack_def)

lemma vmap_range_Inr:
  assumes "\<And>i. f i = Inr (g i)" and "\<And>i. shape (g i) = sh"
  shows "vmap_range f n = Inr (stack sh (map g [0..<n]))"
  using assms by (simp add: vmap_range_def vmap_trace_Inr stack_out_def list_all_iff)

subsection \<open>Construction checks the shapes\<close>

text \<open>
  C9. With \<open>K\<close> the last dimension of the transition matrix, \<open>StandardHMM.__init__\<close>
  returns a model object, holding the two arrays, when the initial probabilities have
  shape \<open>(K,)\<close> and the transition matrix has shape \<open>(K, K)\<close>; in every other case it
  returns no object and raises at once, an AssertionError from one of the two asserts or
  an IndexError when the transition matrix is 0-d and has no last dimension.
\<close>

theorem StandardHMM_init_shape_check:
  "(shape tm \<noteq> [] \<and> shape ip = [last (shape tm)]
      \<and> shape tm = [last (shape tm), last (shape tm)] \<longrightarrow>
      (\<exists>m. StandardHMM_init ip tm c1 c2 = Inr m \<and> pvalue (hmm_initial_probs m) = ip
          \<and> pvalue (hmm_transition_matrix m) = tm)) \<and>
   (\<not> (shape tm \<noteq> [] \<and> shape ip = [last (shape tm)]
      \<and> shape tm = [last (shape tm), last (shape tm)]) \<longrightarrow>
      StandardHMM_init ip tm c1 c2 = Inl AssertionError
        \<or> StandardHMM_init ip tm c1 c2 = Inl IndexError)"
proof (cases "rev (shape tm)")
  case Nil
  then show ?thesis by (simp add: StandardHMM_init_def)
next
  case (Cons k ks)
  then have "shape tm \<noteq> []" and "last (shape tm) = k"
    by (auto simp: last_rev[symmetric] simp del: last_rev)
  with Cons show ?thesis
    by (simp add: StandardHMM_init_def Parameter_def)
qed

theorem StandardHMM_init_shape_check_witness:
  "(\<exists>m. StandardHMM_init ex_initial_probs ex_transition_matrix (11/10) (11/10) = Inr m
        \<and> pvalue (hmm_initial_probs m) = ex_initial_probs
        \<and> pvalue (hmm_transition_matrix m) = ex_transition_matrix) \<and>
   (StandardHMM_init (of_list [1/3, 1/3, 1/3]) ex_transition_matrix (11/10) (11/10)
        = Inl AssertionError
      \<or> StandardHMM_init (of_list [1/3, 1/3, 1/3]) ex_transition_matrix (11/10) (11/10)
        = Inl IndexError)"
  using StandardHMM_init_shape_check
          [of ex_transition_matrix ex_initial_probs "11/10" "11/10"]
        StandardHMM_init_shape_check
          [of ex_transition_matrix "of_list [1/3, 1/3, 1/3]" "11/10" "11/10"]
  by (simp add: ex_initial_probs_def ex_transition_matrix_def of_list_def of_rows_def)

subsection \<open>The statistics of a model\<close>

text \<open>
  C10. \<open>marginal_log_prob(emissions)\<close> is the field \<open>marginal_loglik\<close> of
  \<open>filter(emissions)\<close>: both call the filter primitive on the same initial
  probabilities, transition matrices and conditional log-likelihoods, and both raise
  the same exception when computing one of these raises.
\<close>

theorem marginal_log_prob_filter:
  "marginal_log_prob I C self emissions =
     map_sum (\<lambda>e. e) marginal_loglik (filter_hmm I C self emissions)"
  unfolding marginal_log_prob_def filter_hmm_def Let_def
  by (auto simp: ebind_def split: sum.splits)

text \<open>
  C5. Let \<open>K\<close> be the number of states. Without covariates, when
  \<open>transition_distribution(i)\<close> is a distribution over \<open>K\<close> categories for every state,
  \<open>_compute_transition_matrices\<close> returns a \<open>K \<times> K\<close> matrix whose row \<open>i\<close> is the
  probability vector of \<open>transition_distribution(i)\<close>. With covariates of batch size
  \<open>B\<close>, when \<open>transition_distribution(i, covariate)\<close> is such a distribution for every
  state and covariate realization, it returns a tensor of shape \<open>(B, K, K)\<close> whose
  matrix \<open>b\<close> has as row \<open>i\<close> the probability vector of \<open>transition_distribution(i)\<close> at
  realization \<open>b\<close> of the covariates.
\<close>

theorem compute_transition_matrices_rows:
  assumes K: "shape (probs_parameter (initial_distribution C self)) = K # rest"
  shows "((\<forall>state. \<exists>d. transition_distribution C self state [] = Inr d
              \<and> shape (probs_parameter d) = [K]) \<longrightarrow>
          (\<exists>a. compute_transition_matrices C self [] = Inr a \<and> shape a = [K, K] \<and>
             (\<forall>i<K. transition_distribution C self i [] = Inr (Categorical (slice a i))))) \<and>
         (covariates \<noteq> [] \<and> kwargs_len covariates = Inr B \<and>
          (\<forall>state b. \<exists>d. transition_distribution C self state (kwargs_slice covariates b) = Inr d
              \<and> shape (probs_parameter d) = [K]) \<longrightarrow>
          (\<exists>a. compute_transition_matrices C self covariates = Inr a \<and> shape a = [B, K, K] \<and>
             (\<forall>b<B. \<forall>i<K. transition_distribution C self i (kwargs_slice covariates b)
                 = Inr (Categorical (slice (slice a b) i)))))"
proof (intro conjI impI)
  assume "\<forall>state. \<exists>d. transition_distribution C self state [] = Inr d
              \<and> shape (probs_parameter d) = [K]"
  then obtain d where d: "\<And>state. transition_distribution C self state [] = Inr (d state)"
    and sh: "\<And>state. shape (probs_parameter (d state)) = [K]"
    by metis
  have "compute_transition_matrices C self [] =
          Inr (stack [K] (map (\<lambda>i. probs_parameter (d i)) [0..<K]))"
    unfolding compute_transition_matrices_def
    by (simp add: num_states_def K d sh
          vmap_range_Inr[where g="\<lambda>i. probs_parameter (d i)" and sh="[K]"])
  then show "\<exists>a. compute_transition_matrices C self [] = Inr a \<and> shape a = [K, K] \<and>
             (\<forall>i<K. transition_distribution C self i [] = Inr (Categorical (slice a i)))"
    by (simp add: slice_stack sh d)
next
  assume a: "covariates \<noteq> [] \<and> kwargs_len covariates = Inr B \<and>
          (\<forall>state b. \<exists>d. transition_distribution C self state (kwargs_slice covariates b) = Inr d
              \<and> shape (probs_parameter d) = [K])"
  then have "\<forall>p. \<exists>d. transition_distribution C self (fst p) (kwargs_slice covariates (snd p)) = Inr d
              \<and> shape (probs_parameter d) = [K]"
    by simp
  then obtain D where D: "\<forall>p. transition_distribution C self (fst p) (kwargs_slice covariates (snd p)) = Inr (D p)
              \<and> shape (probs_parameter (D p)) = [K]"
    by (rule choice[THEN exE])
  define d where "d b state = D (state, b)" for b state
  have d: "transition_distribution C self state (kwargs_slice covariates b) = Inr (d b state)"
    and sh: "shape (probs_parameter (d b state)) = [K]" for state b
    using D[rule_format, of "(state, b)"] by (simp_all add: d_def)
  define row where "row b = stack [K] (map (\<lambda>i. probs_parameter (d b i)) [0..<K])" for b
  have inner: "ebind (num_states C self)
            (vmap_range (\<lambda>state.
               ebind (transition_distribution C self state (kwargs_slice covariates b))
                 (\<lambda>d. Inr (probs_parameter d)))) = Inr (row b)" for b
    by (simp add: num_states_def K d row_def sh
          vmap_range_Inr[where g="\<lambda>i. probs_parameter (d b i)" and sh="[K]"])
  have shrow: "shape (row b) = [K, K]" for b by (simp add: row_def)
  have "compute_transition_matrices C self covariates = Inr (stack [K, K] (map row [0..<B]))"
    unfolding compute_transition_matrices_def vmap_kwargs_def using a
    by (simp add: inner vmap_trace_Inr[where g=row] stack_out_def list_all_iff shrow)
  moreover have "slice (slice (stack [K, K] (map row [0..<B])) b) i = probs_parameter (d b i)"
    if "b < B" "i < K" for b i
    using that by (simp add: slice_stack shrow) (simp add: row_def slice_stack sh)
  ultimately show "\<exists>a. compute_transition_matrices C self covariates = Inr a \<and> shape a = [B, K, K] \<and>
             (\<forall>b<B. \<forall>i<K. transition_distribution C self i (kwargs_slice covariates b)
                 = Inr (Categorical (slice (slice a b) i)))"
    by (simp add: d)
qed

lemma kwargs_len_cov_u: "kwargs_len cov_u = Inr 3"
  by (simp add: kwargs_len_def cov_u_def of_list_def)

theorem compute_transition_matrices_rows_witness:
  "(\<exists>a. compute_transition_matrices cov_class () [] = Inr a \<and> shape a = [2, 2] \<and>
       elem a [1, 0] = 1/2) \<and>
   (\<exists>a. compute_transition_matrices cov_class () cov_u = Inr a \<and> shape a = [3, 2, 2] \<and>
       elem a [1, 0, 0] = 3/4)"
proof -
  have K: "shape (probs_parameter (initial_distribution cov_class ())) = 2 # []"
    by (simp add: cov_class_def of_list_def)
  have h1: "\<forall>state. \<exists>d. transition_distribution cov_class () state [] = Inr d
              \<and> shape (probs_parameter d) = [2]"
    by (simp add: cov_class_def of_list_def)
  have h2: "cov_u \<noteq> [] \<and> kwargs_len cov_u = Inr 3 \<and>
          (\<forall>state b. \<exists>d. transition_distribution cov_class () state (kwargs_slice cov_u b) = Inr d
              \<and> shape (probs_parameter d) = [2])"
    by (simp add: kwargs_len_cov_u) (simp add: cov_class_def of_list_def cov_u_def kwargs_slice_def)
  from compute_transition_matrices_rows[OF K, of cov_u 3] h1 h2
  obtain a a' where a: "compute_transition_matrices cov_class () [] = Inr a" "shape a = [2, 2]"
      "\<forall>i<2. transition_distribution cov_class () i [] = Inr (Categorical (slice a i))"
    and a': "compute_transition_matrices cov_class () cov_u = Inr a'" "shape a' = [3, 2, 2]"
      "\<forall>b<3. \<forall>i<2. transition_distribution cov_class () i (kwargs_slice cov_u b)
                 = Inr (Categorical (slice (slice a' b) i))"
    by blast
  have "slice a 1 = of_list [1/2, 1/2]"
    using a(3)[rule_format, of 1] by (simp add: cov_class_def)
  then have "elem (slice a 1) [0] = elem (of_list [1/2, 1/2]) [0]"
    by simp
  then have e1: "elem a [1, 0] = 1/2"
    by (simp add: slice_def of_list_def)
  have "slice (slice a' 1) 0 = of_list [3/4, 1/4]"
    using a'(3)[rule_format, of 1 0]
    by (simp add: cov_class_def cov_u_def kwargs_slice_def item_def slice_def of_list_def)
  then have "elem (slice (slice a' 1) 0) [0] = elem (of_list [3/4, 1/4]) [0]"
    by simp
  then have e2: "elem a' [1, 0, 0] = 3/4"
    by (simp add: slice_def of_list_def)
  show ?thesis using a a' e1 e2 by simp
qed

lemma sequence_e_eq_Inr: "sequence_e ms = Inr xs \<longleftrightarrow> ms = map Inr xs"
proof (induction ms arbitrary: xs)
  case Nil
  then show ?case by auto
next
  case (Cons m ms)
  show ?case
  proof (cases m)
    case (Inl e)
    then show ?thesis by (cases xs) auto
  next
    case (Inr x)
    then show ?thesis using Cons by (cases xs) (auto simp: ebind_eq_Inr)
  qed
qed

lemma ebind_InrE:
  assumes "ebind m f = Inr y"
  obtains x where "m = Inr x" and "f x = Inr y"
  using assms by (cases m) simp_all

lemma vmap_trace_eq_Inr:
  assumes "vmap_trace n f = Inr (a0, as)"
  shows "f 0 = Inr a0" and "length as = n" and "i < n \<Longrightarrow> f i = Inr (as ! i)"
proof -
  from assms have f0: "f 0 = Inr a0" and seq: "map f [0..<n] = map Inr as"
    by (auto simp: vmap_trace_def ebind_eq_Inr sequence_e_eq_Inr)
  show "f 0 = Inr a0" by (rule f0)
  from seq have "length (map f [0..<n]) = length (map Inr as)" by simp
  then show len: "length as = n" by simp
  assume "i < n"
  with seq len have "map f [0..<n] ! i = map Inr as ! i" by simp
  with \<open>i < n\<close> len show "f i = Inr (as ! i)" by simp
qed

lemma stack_out_shape:
  "stack_out (a0, as) = Inr st \<Longrightarrow> shape st = length as # shape a0"
  by (auto simp: stack_out_def split: if_splits)

lemma stack_out_slice:
  assumes "stack_out (a0, as) = Inr st" and "i < length as"
  shows "slice st i = as ! i"
  using assms
  by (auto simp: stack_out_def list_all_length slice_stack split: if_splits)

lemma compute_transition_matrices_ndim:
  assumes "compute_transition_matrices C self [] = Inr tm"
  shows "\<exists>d. transition_distribution C self 0 [] = Inr d \<and>
             ndim tm = Suc (ndim (probs_parameter d))"
proof -
  from assms obtain K a0 as where
    tr: "vmap_trace K (\<lambda>state. ebind (transition_distribution C self state [])
                 (\<lambda>d. Inr (probs_parameter d))) = Inr (a0, as)"
    and st: "stack_out (a0, as) = Inr tm"
    unfolding compute_transition_matrices_def vmap_range_def
    by (simp, elim ebind_InrE) (metis surj_pair)
  from vmap_trace_eq_Inr(1)[OF tr] obtain d where
    "transition_distribution C self 0 [] = Inr d" "a0 = probs_parameter d"
    by (elim ebind_InrE) auto
  with stack_out_shape[OF st] show ?thesis
    by (simp add: ndim_def)
qed

lemma stack_posteriors_slice:
  assumes "stack_posteriors (p0, ps) = Inr P" and "i < length ps"
  shows "posterior_slice P i = ps ! i"
proof -
  from assms(1) obtain ml fp sp ip tp where
    s: "stack_out (marginal_loglik p0, map marginal_loglik ps) = Inr ml"
       "stack_out (filtered_probs p0, map filtered_probs ps) = Inr fp"
       "stack_out (smoothed_probs p0, map smoothed_probs ps) = Inr sp"
       "stack_out (initial_probs p0, map initial_probs ps) = Inr ip"
       "stack_out (trans_probs p0, map trans_probs ps) = Inr tp"
    and P: "P = \<lparr>marginal_loglik = ml, filtered_probs = fp, smoothed_probs = sp,
             initial_probs = ip, trans_probs = tp\<rparr>"
    unfolding stack_posteriors_def prod.case by (elim ebind_InrE) auto
  have "slice ml i = marginal_loglik (ps ! i)" "slice fp i = filtered_probs (ps ! i)"
    "slice sp i = smoothed_probs (ps ! i)" "slice ip i = initial_probs (ps ! i)"
    "slice tp i = trans_probs (ps ! i)"
    using stack_out_slice[OF s(1)] stack_out_slice[OF s(2)] stack_out_slice[OF s(3)]
      stack_out_slice[OF s(4)] stack_out_slice[OF s(5)] assms(2)
    by simp_all
  then show ?thesis
    by (simp add: posterior_slice_def P)
qed

lemma e_step_slice:
  assumes "e_step I C self batch_emissions = Inr posts"
    and "shape batch_emissions = N # sh" and "n < N"
  shows "single_e_step I C self (slice batch_emissions n) = Inr (posterior_slice posts n)"
proof -
  from assms(1,2) obtain p0 ps where
    tr: "vmap_trace N (\<lambda>i. single_e_step I C self (slice batch_emissions i)) = Inr (p0, ps)"
    and st: "stack_posteriors (p0, ps) = Inr posts"
    unfolding e_step_def vmap_posterior_def
    by (simp, elim ebind_InrE) (metis surj_pair)
  from vmap_trace_eq_Inr[OF tr] assms(3) stack_posteriors_slice[OF st, of n]
  show ?thesis by simp
qed

lemma compute_transition_matrices_Inr:
  assumes "shape (probs_parameter (initial_distribution C self)) = K # rest"
    and "\<And>state. transition_distribution C self state [] = Inr (d state)"
    and "\<And>state. shape (probs_parameter (d state)) = sh"
  shows "compute_transition_matrices C self [] =
           Inr (stack sh (map (\<lambda>i. probs_parameter (d i)) [0..<K]))"
  unfolding compute_transition_matrices_def using assms
  by (simp add: num_states_def vmap_range_Inr[where g="\<lambda>i. probs_parameter (d i)" and sh=sh])

lemma vmap_Inr:
  assumes "shape xs = n # rest" and "\<And>i. f (slice xs i) = Inr (g i)" and "\<And>i. shape (g i) = sh"
  shows "vmap f xs = Inr (stack sh (map g [0..<n]))"
  using assms by (simp add: vmap_def vmap_trace_Inr[where g=g] stack_out_def list_all_iff)

lemma compute_conditional_logliks_Inr:
  assumes "shape (probs_parameter (initial_distribution C self)) = K # rest"
    and "shape emissions = T # sh"
    and "\<And>state. emission_distribution C self state = Inr (d state)"
    and "\<And>state e. shape (log_prob (d state) e) = sh'"
  shows "compute_conditional_logliks C self emissions =
           Inr (stack (K # sh') (map (\<lambda>t. stack sh'
                  (map (\<lambda>k. log_prob (d k) (slice emissions t)) [0..<K])) [0..<T]))"
  unfolding compute_conditional_logliks_def
  by (rule vmap_Inr[OF assms(2)])
     (simp_all add: num_states_def assms vmap_range_Inr[where sh=sh'])

lemma ctm_cov: "compute_transition_matrices cov_class () [] =
    Inr (stack [2] (map (\<lambda>i. of_list [1/2, 1/2]) [0..<2]))"
  by (rule compute_transition_matrices_Inr[where d="\<lambda>i. Categorical (of_list [1/2, 1/2])", simplified])
     (simp_all add: cov_class_def of_list_def)

lemma ccl_cov: "shape emissions = T # sh \<Longrightarrow> compute_conditional_logliks cov_class () emissions =
    Inr (stack [2] (map (\<lambda>t. stack [] (map (\<lambda>k. scalar (- real k)) [0..<2])) [0..<T]))"
  by (rule compute_conditional_logliks_Inr[where d="\<lambda>k. Distribution (\<lambda>e. scalar (- real k))" and rest="[]", simplified])
     (simp_all add: cov_class_def of_list_def scalar_def)


lemma stack_out_Inr:
  "(\<And>a. a \<in> set as \<Longrightarrow> shape a = shape a0) \<Longrightarrow> stack_out (a0, as) = Inr (stack (shape a0) as)"
  by (simp add: stack_out_def list_all_iff)

lemma e_step_Inr:
  assumes be: "shape batch_emissions = N # sh"
    and single: "\<And>i. \<exists>p. single_e_step I C self (slice batch_emissions i) = Inr p
           \<and> shape (marginal_loglik p) = s1 \<and> shape (filtered_probs p) = s2
           \<and> shape (smoothed_probs p) = s3 \<and> shape (initial_probs p) = s4
           \<and> shape (trans_probs p) = s5"
  shows "\<exists>posts. e_step I C self batch_emissions = Inr posts
           \<and> shape (marginal_loglik posts) = N # s1 \<and> shape (trans_probs posts) = N # s5"
proof -
  from single obtain g where g: "\<And>i. single_e_step I C self (slice batch_emissions i) = Inr (g i)"
    and sh: "\<And>i. shape (marginal_loglik (g i)) = s1" "\<And>i. shape (filtered_probs (g i)) = s2"
      "\<And>i. shape (smoothed_probs (g i)) = s3" "\<And>i. shape (initial_probs (g i)) = s4"
      "\<And>i. shape (trans_probs (g i)) = s5"
    by metis
  have tr: "vmap_trace N (\<lambda>i. single_e_step I C self (slice batch_emissions i))
              = Inr (g 0, map g [0..<N])"
    by (rule vmap_trace_Inr) (rule g)
  show ?thesis
    unfolding e_step_def vmap_posterior_def
    by (simp add: be tr stack_posteriors_def stack_out_def list_all_iff sh)
qed

lemma single_e_step_cov:
  assumes "shape emissions = T # sh"
  shows "\<exists>p. single_e_step ex_inference cov_class () emissions = Inr p
           \<and> shape (marginal_loglik p) = [] \<and> shape (filtered_probs p) = [T, 2]
           \<and> shape (smoothed_probs p) = [T, 2] \<and> shape (initial_probs p) = [2]
           \<and> shape (trans_probs p) = [2, 2]"
proof -
  have ip: "compute_initial_probs cov_class () = of_list [1/2, 1/2]"
    by (simp add: compute_initial_probs_def cov_class_def)
  show ?thesis
    unfolding single_e_step_def
    by (simp add: ctm_cov ccl_cov[OF assms] ip reduce_or_retain_def ex_pairwise_def ndim_def
          ex_inference_def sum_axis0_def scalar_def of_list_def)
qed

lemma e_step_cov:
  "\<exists>posts. e_step ex_inference cov_class () ex_batch = Inr posts
           \<and> shape (marginal_loglik posts) = [2] \<and> shape (trans_probs posts) = [2, 2, 2]"
proof -
  have be: "shape ex_batch = 2 # [3]" by (simp add: ex_batch_def of_rows_def)
  have sl: "shape (slice ex_batch i) = 3 # []" for i by (simp add: slice_def be)
  show ?thesis
    using e_step_Inr[OF be single_e_step_cov[OF sl]] by simp
qed


lemma single_e_step_ex:
  assumes K: "shape (probs_parameter (initial_distribution C self)) = K # rest"
    and td: "\<And>state. transition_distribution C self state [] = Inr (d state)"
            "\<And>state. shape (probs_parameter (d state)) = sh"
    and em: "shape emissions = T # she"
            "\<And>state. emission_distribution C self state = Inr (e state)"
            "\<And>state x. shape (log_prob (e state) x) = sh'"
  shows "\<exists>p. single_e_step ex_inference C self emissions = Inr p
           \<and> shape (marginal_loglik p) = [] \<and> shape (filtered_probs p) = T # K # sh'
           \<and> shape (smoothed_probs p) = T # K # sh' \<and> shape (initial_probs p) = K # rest
           \<and> shape (trans_probs p) = (if length sh = 1 then K # sh else (T - 1) # K # sh)"
  unfolding single_e_step_def
  by (simp add: compute_transition_matrices_Inr[OF K td]
        compute_conditional_logliks_Inr[OF K em] reduce_or_retain_def ex_pairwise_def ndim_def
        ex_inference_def sum_axis0_def scalar_def compute_initial_probs_def K)

lemma ex_batch_shape: "shape ex_batch = 2 # [3]" "shape (slice ex_batch i) = 3 # []"
  by (simp_all add: ex_batch_def of_rows_def slice_def)

lemma e_step_rank3:
  "\<exists>posts. e_step ex_inference rank3_class () ex_batch = Inr posts"
proof -
  have "\<exists>p. single_e_step ex_inference rank3_class () (slice ex_batch i) = Inr p
           \<and> shape (marginal_loglik p) = [] \<and> shape (filtered_probs p) = 3 # 2 # []
           \<and> shape (smoothed_probs p) = 3 # 2 # [] \<and> shape (initial_probs p) = 2 # []
           \<and> shape (trans_probs p) = (if length [2, 2::nat] = 1 then 2 # [2, 2] else (3 - 1) # 2 # [2, 2])" for i
    by (rule single_e_step_ex[where d="\<lambda>i. Categorical (of_rows 2 [[1/2, 1/2], [1/4, 3/4]])"
              and e="\<lambda>k. Distribution (\<lambda>e. scalar (- real k))"])
       (simp_all add: rank3_class_def cov_class_def of_list_def of_rows_def scalar_def ex_batch_shape)
  from e_step_Inr[OF ex_batch_shape(1) this] show ?thesis by blast
qed

subsection \<open>The E-step reduces the transition statistic by its rank\<close>

text \<open>
  C4. For every sequence \<open>n\<close> of the batch, the \<open>trans_probs\<close> that \<open>e_step\<close> stores
  for it are what \<open>compute_transition_probs\<close> returns for that sequence's posterior
  with \<open>reduce_sum=True\<close>, the pairwise counts summed over time, when the
  transition-matrix statistic has rank 2, and with \<open>reduce_sum=False\<close>, the counts per
  time step, when the rank is not 2. The rank is one more than the rank of the
  probabilities of a transition distribution, so it is 2 or higher whenever these are
  vectors or batches of vectors.
\<close>

theorem e_step_trans_probs:
  assumes "e_step I C self batch_emissions = Inr posts"
    and "shape batch_emissions = N # sh" and "n < N"
  shows "\<exists>tm lls. compute_transition_matrices C self [] = Inr tm \<and>
           compute_conditional_logliks C self (slice batch_emissions n) = Inr lls \<and>
           (ndim tm = 2 \<longrightarrow>
              compute_transition_probs I tm
                 (hmm_two_filter_smoother I (compute_initial_probs C self) tm lls) True
                = Inr (slice (trans_probs posts) n)) \<and>
           (ndim tm \<noteq> 2 \<longrightarrow>
              compute_transition_probs I tm
                 (hmm_two_filter_smoother I (compute_initial_probs C self) tm lls) False
                = Inr (slice (trans_probs posts) n)) \<and>
           (\<exists>d. transition_distribution C self 0 [] = Inr d \<and>
                ndim tm = Suc (ndim (probs_parameter d)))"
proof -
  from e_step_slice[OF assms] obtain tm lls tp where
    tm: "compute_transition_matrices C self [] = Inr tm"
    and lls: "compute_conditional_logliks C self (slice batch_emissions n) = Inr lls"
    and tp: "compute_transition_probs I tm
               (hmm_two_filter_smoother I (compute_initial_probs C self) tm lls)
               (ndim tm = 2) = Inr tp"
    and ps: "posterior_slice posts n =
               (hmm_two_filter_smoother I (compute_initial_probs C self) tm lls)\<lparr>trans_probs := tp\<rparr>"
    unfolding single_e_step_def Let_def by (elim ebind_InrE) auto
  from ps have "trans_probs (posterior_slice posts n) = tp"
    by simp
  then have "slice (trans_probs posts) n = tp"
    by (simp add: posterior_slice_def)
  with tp tm lls compute_transition_matrices_ndim[OF tm] show ?thesis
    by auto
qed

theorem e_step_trans_probs_witness:
  "(\<exists>posts tm lls. e_step ex_inference cov_class () ex_batch = Inr posts \<and>
      compute_transition_matrices cov_class () [] = Inr tm \<and>
      compute_conditional_logliks cov_class () (slice ex_batch 1) = Inr lls \<and> ndim tm = 2 \<and>
      sum_axis0 (ex_pairwise tm
           (hmm_two_filter_smoother ex_inference (compute_initial_probs cov_class ()) tm lls))
        = Inr (slice (trans_probs posts) 1)) \<and>
   (\<exists>posts tm lls. e_step ex_inference rank3_class () ex_batch = Inr posts \<and>
      compute_transition_matrices rank3_class () [] = Inr tm \<and>
      compute_conditional_logliks rank3_class () (slice ex_batch 1) = Inr lls \<and> ndim tm = 3 \<and>
      slice (trans_probs posts) 1 = ex_pairwise tm
           (hmm_two_filter_smoother ex_inference (compute_initial_probs rank3_class ()) tm lls))"
proof -
  from e_step_cov obtain posts where
    posts: "e_step ex_inference cov_class () ex_batch = Inr posts" by blast
  from e_step_rank3 obtain posts3 where
    posts3: "e_step ex_inference rank3_class () ex_batch = Inr posts3" by blast
  have n2: "ndim tm = 2" if "compute_transition_matrices cov_class () [] = Inr tm" for tm
    using that by (auto simp: ctm_cov ndim_def)
  have "compute_transition_matrices rank3_class () [] =
          Inr (stack [2, 2] (map (\<lambda>i. of_rows 2 [[1/2, 1/2], [1/4, 3/4]]) [0..<2]))"
    by (rule compute_transition_matrices_Inr[where d="\<lambda>i. Categorical (of_rows 2 [[1/2, 1/2], [1/4, 3/4]])", simplified])
       (simp_all add: rank3_class_def cov_class_def of_list_def of_rows_def)
  then have n3: "ndim tm = 3" if "compute_transition_matrices rank3_class () [] = Inr tm" for tm
    using that by (auto simp: ndim_def)
  have ctp: "compute_transition_probs ex_inference = reduce_or_retain ex_pairwise"
    by (simp add: ex_inference_def)
  from e_step_trans_probs[OF posts ex_batch_shape(1), of 1] obtain tm lls where
    a: "compute_transition_matrices cov_class () [] = Inr tm"
       "compute_conditional_logliks cov_class () (slice ex_batch 1) = Inr lls"
       "ndim tm = 2 \<longrightarrow>
         compute_transition_probs ex_inference tm
           (hmm_two_filter_smoother ex_inference (compute_initial_probs cov_class ()) tm lls) True
         = Inr (slice (trans_probs posts) 1)"
    by auto
  from e_step_trans_probs[OF posts3 ex_batch_shape(1), of 1] obtain tm3 lls3 where
    b: "compute_transition_matrices rank3_class () [] = Inr tm3"
       "compute_conditional_logliks rank3_class () (slice ex_batch 1) = Inr lls3"
       "ndim tm3 \<noteq> 2 \<longrightarrow>
         compute_transition_probs ex_inference tm3
           (hmm_two_filter_smoother ex_inference (compute_initial_probs rank3_class ()) tm3 lls3)
           False
         = Inr (slice (trans_probs posts3) 1)"
    by auto
  from a n2[OF a(1)] posts have A: "\<exists>posts tm lls. e_step ex_inference cov_class () ex_batch = Inr posts \<and>
      compute_transition_matrices cov_class () [] = Inr tm \<and>
      compute_conditional_logliks cov_class () (slice ex_batch 1) = Inr lls \<and> ndim tm = 2 \<and>
      sum_axis0 (ex_pairwise tm
           (hmm_two_filter_smoother ex_inference (compute_initial_probs cov_class ()) tm lls))
        = Inr (slice (trans_probs posts) 1)"
    by (intro exI[of _ posts] exI[of _ tm] exI[of _ lls]) (simp add: ctp reduce_or_retain_def)
  from b n3[OF b(1)] posts3 have B: "\<exists>posts tm lls. e_step ex_inference rank3_class () ex_batch = Inr posts \<and>
      compute_transition_matrices rank3_class () [] = Inr tm \<and>
      compute_conditional_logliks rank3_class () (slice ex_batch 1) = Inr lls \<and> ndim tm = 3 \<and>
      slice (trans_probs posts) 1 = ex_pairwise tm
           (hmm_two_filter_smoother ex_inference (compute_initial_probs rank3_class ()) tm lls)"
    by (intro exI[of _ posts3] exI[of _ tm3] exI[of _ lls3]) (simp add: ctp reduce_or_retain_def)
  from A B show ?thesis by (rule conjI)
qed


lemma elementwise_add_vec:
  assumes "shape a = [K]" "shape b = [K]"
  shows "\<exists>c. elementwise f a b = Inr c \<and> shape c = [K] \<and>
           (\<forall>k<K. elem c [k] = f (elem a [k]) (elem b [k]))"
  using assms
  by (auto simp: elementwise_def broadcast_shapes_def bindex_def)

lemma elementwise_add_vec_mat:
  assumes "shape a = [K]" "shape b = [K, K]"
  shows "\<exists>c. elementwise f a b = Inr c \<and> shape c = [K, K] \<and>
           (\<forall>i<K. \<forall>j<K. elem c [i, j] = f (elem a [j]) (elem b [i, j]))"
  using assms
  by (auto simp: elementwise_def broadcast_shapes_def bindex_def)

lemma set_value_eq_Inr:
  "set_value L v p = Inr p' \<Longrightarrow> p' = p\<lparr>pvalue := v\<rparr>"
  by (auto simp: set_value_def split: if_splits)

subsection \<open>The closed-form M-step\<close>

text \<open>
  C1. Let the batch hold \<open>N\<close> posteriors over \<open>K\<close> states. When the two closed-form
  sub-steps of \<open>StandardHMM.m_step\<close> have run, the initial probabilities are the mode of
  the Dirichlet distribution whose concentration \<open>a\<close> is the stored prior concentration
  plus the expected initial-state occupancies summed over the batch, and the transition
  matrix is the mode of the Dirichlet distributions, one per row, whose concentrations
  \<open>b\<close> are the stored prior concentration plus the expected pairwise transition counts
  summed over the batch: row \<open>i\<close> has concentration \<open>prior[j] + \<Sum>\<^sub>n counts[n, i, j]\<close>.
  The two concentration Parameters are the ones stored before.
\<close>

theorem m_step_closed_form:
  assumes c1: "shape (pvalue (hmm_initial_probs_concentration self)) = [K]"
    and n1: "shape (initial_probs batch_posteriors) = [N, K]"
    and c2: "shape (pvalue (hmm_transition_matrix_concentration self)) = [K]"
    and n2: "shape (trans_probs batch_posteriors) = [N, K, K]"
    and s1: "m_step_initial_probs L batch_emissions batch_posteriors self = Inr self1"
    and s2: "m_step_transition_matrix L batch_emissions batch_posteriors self1 = Inr self2"
  shows "\<exists>a b.
      pvalue (hmm_initial_probs self2) = dirichlet_mode L a \<and> shape a = [K] \<and>
      (\<forall>k<K. elem a [k] = elem (pvalue (hmm_initial_probs_concentration self)) [k]
                 + (\<Sum>n\<leftarrow>[0..<N]. elem (initial_probs batch_posteriors) [n, k])) \<and>
      pvalue (hmm_transition_matrix self2) = dirichlet_mode L b \<and> shape b = [K, K] \<and>
      (\<forall>i<K. \<forall>j<K. elem b [i, j] = elem (pvalue (hmm_transition_matrix_concentration self)) [j]
                 + (\<Sum>n\<leftarrow>[0..<N]. elem (trans_probs batch_posteriors) [n, i, j])) \<and>
      hmm_initial_probs_concentration self2 = hmm_initial_probs_concentration self \<and>
      hmm_transition_matrix_concentration self2 = hmm_transition_matrix_concentration self"
proof -
  from s1 obtain cnt a p where
    cnt: "sum_axis0 (initial_probs batch_posteriors) = Inr cnt"
    and a: "elementwise (+) (pvalue (hmm_initial_probs_concentration self)) cnt = Inr a"
    and p: "set_value L (dirichlet_mode L a) (hmm_initial_probs self) = Inr p"
    and self1: "self1 = self\<lparr>hmm_initial_probs := p\<rparr>"
    unfolding m_step_initial_probs_def by (elim ebind_InrE) auto
  from cnt n1 have cnt': "shape cnt = [K]"
    "\<And>k. elem cnt [k] = (\<Sum>n\<leftarrow>[0..<N]. elem (initial_probs batch_posteriors) [n, k])"
    by (auto simp: sum_axis0_def)
  from elementwise_add_vec[OF c1 cnt'(1), of "(+)"] a cnt'(2)
  have a': "shape a = [K]"
    "\<forall>k<K. elem a [k] = elem (pvalue (hmm_initial_probs_concentration self)) [k]
                 + (\<Sum>n\<leftarrow>[0..<N]. elem (initial_probs batch_posteriors) [n, k])"
    by auto
  from s2 obtain cnt2 b q where
    cnt2: "sum_axis0 (trans_probs batch_posteriors) = Inr cnt2"
    and b: "elementwise (+) (pvalue (hmm_transition_matrix_concentration self1)) cnt2 = Inr b"
    and q: "set_value L (dirichlet_mode L b) (hmm_transition_matrix self1) = Inr q"
    and self2: "self2 = self1\<lparr>hmm_transition_matrix := q\<rparr>"
    unfolding m_step_transition_matrix_def by (elim ebind_InrE) auto
  from cnt2 n2 have cnt2': "shape cnt2 = [K, K]"
    "\<And>i j. elem cnt2 [i, j] = (\<Sum>n\<leftarrow>[0..<N]. elem (trans_probs batch_posteriors) [n, i, j])"
    by (auto simp: sum_axis0_def)
  have c2': "shape (pvalue (hmm_transition_matrix_concentration self1)) = [K]"
    by (simp add: self1 c2)
  from elementwise_add_vec_mat[OF c2' cnt2'(1), of "(+)"] b cnt2'(2)
  have b': "shape b = [K, K]"
    "\<forall>i<K. \<forall>j<K. elem b [i, j] = elem (pvalue (hmm_transition_matrix_concentration self)) [j]
                 + (\<Sum>n\<leftarrow>[0..<N]. elem (trans_probs batch_posteriors) [n, i, j])"
    by (auto simp: self1)
  have "pvalue (hmm_initial_probs self2) = dirichlet_mode L a"
    using set_value_eq_Inr[OF p] by (simp add: self2 self1)
  moreover have "pvalue (hmm_transition_matrix self2) = dirichlet_mode L b"
    using set_value_eq_Inr[OF q] by (simp add: self2)
  ultimately show ?thesis
    using a' b' by (intro exI[of _ a] exI[of _ b]) (simp add: self1 self2)
qed


lemma upt2: "[0..<2] = [0, 1]"
  by code_simp

theorem m_step_closed_form_witness:
  "\<exists>self1 self2.
     m_step_initial_probs ex_library ex_batch ex_posteriors ex_hmm = Inr self1 \<and>
     m_step_transition_matrix ex_library ex_batch ex_posteriors self1 = Inr self2 \<and>
     elem (pvalue (hmm_initial_probs self2)) [0] = 21/22 \<and>
     elem (pvalue (hmm_transition_matrix self2)) [0, 1] = 21/22 \<and>
     elem (pvalue (hmm_transition_matrix self2)) [1, 0] = 1/2"
proof -
  obtain self1 where s1: "m_step_initial_probs ex_library ex_batch ex_posteriors ex_hmm = Inr self1"
    by (simp add: m_step_initial_probs_def ex_posteriors_def ex_hmm_def ex_library_def
          sum_axis0_def of_rows_def Parameter_def scaled_ones_def elementwise_def
          broadcast_shapes_def set_value_def)
  have c: "hmm_transition_matrix_concentration self1 = hmm_transition_matrix_concentration ex_hmm"
    "hmm_initial_probs_concentration self1 = hmm_initial_probs_concentration ex_hmm"
    using s1 unfolding m_step_initial_probs_def by (elim ebind_InrE, auto)+
  obtain self2 where s2: "m_step_transition_matrix ex_library ex_batch ex_posteriors self1 = Inr self2"
    by (simp add: m_step_transition_matrix_def c ex_posteriors_def ex_hmm_def ex_library_def
          sum_axis0_def of_rows_def Parameter_def scaled_ones_def elementwise_def
          broadcast_shapes_def set_value_def)
  have sh: "shape (pvalue (hmm_initial_probs_concentration ex_hmm)) = [2]"
    "shape (initial_probs ex_posteriors) = [2, 2]"
    "shape (pvalue (hmm_transition_matrix_concentration ex_hmm)) = [2]"
    "shape (trans_probs ex_posteriors) = [2, 2, 2]"
    by (simp_all add: ex_hmm_def ex_posteriors_def Parameter_def scaled_ones_def of_rows_def)
  from m_step_closed_form[OF sh s1 s2] obtain a b where
    a: "pvalue (hmm_initial_probs self2) = dirichlet_mode ex_library a" "shape a = [2]"
       "\<forall>k<2. elem a [k] = elem (pvalue (hmm_initial_probs_concentration ex_hmm)) [k]
                 + (\<Sum>n\<leftarrow>[0..<2]. elem (initial_probs ex_posteriors) [n, k])"
    and b: "pvalue (hmm_transition_matrix self2) = dirichlet_mode ex_library b" "shape b = [2, 2]"
       "\<forall>i<2. \<forall>j<2. elem b [i, j] = elem (pvalue (hmm_transition_matrix_concentration ex_hmm)) [j]
                 + (\<Sum>n\<leftarrow>[0..<2]. elem (trans_probs ex_posteriors) [n, i, j])"
    by blast
  have a0: "elem a [0] = 31/10" and a1: "elem a [Suc 0] = 11/10"
    using a(3)[rule_format, of 0] a(3)[rule_format, of "Suc 0"]
    by (simp_all add: ex_hmm_def ex_posteriors_def Parameter_def scaled_ones_def of_rows_def upt2)
  have b00: "elem b [0, 0] = 11/10" and b01: "elem b [0, Suc 0] = 31/10"
    and b10: "elem b [Suc 0, 0] = 21/10" and b11: "elem b [Suc 0, Suc 0] = 21/10"
    using b(3)[rule_format, of 0 0] b(3)[rule_format, of 0 "Suc 0"]
      b(3)[rule_format, of "Suc 0" 0] b(3)[rule_format, of "Suc 0" "Suc 0"]
    by (simp_all add: ex_hmm_def ex_posteriors_def Parameter_def scaled_ones_def of_rows_def
          stack_def upt2)
  have "elem (pvalue (hmm_initial_probs self2)) [0] = 21/22"
    by (simp add: a(1,2) ex_library_def dirichlet_mode_closed_form_def upt2 a0 a1)
  moreover have "elem (pvalue (hmm_transition_matrix self2)) [0, 1] = 21/22"
    by (simp add: b(1,2) ex_library_def dirichlet_mode_closed_form_def upt2 b00 b01)
  moreover have "elem (pvalue (hmm_transition_matrix self2)) [1, 0] = 1/2"
    by (simp add: b(1,2) ex_library_def dirichlet_mode_closed_form_def upt2 b10 b11)
  ultimately show ?thesis using s1 s2 by blast
qed





subsection \<open>The emission objective of StandardHMM\<close>


lemma posterior_len_ex: "posterior_len ex_posteriors = Inr 2"
  by (simp add: posterior_len_def kwargs_len_def ex_posteriors_def of_list_def of_rows_def)




lemma write_back_roundtrip:
  assumes "\<And>p. p \<in> set ps \<Longrightarrow> \<not> is_frozen p \<Longrightarrow>
             tfb_inverse L (bijector p) (tfb_forward L (bijector p) (pvalue p)) = pvalue p
             \<and> in_domain L (bijector p) (pvalue p)"
  shows "write_back L ps (map (unconstrained_value L) (filter (\<lambda>p. \<not> is_frozen p) ps)) = Inr ps"
  using assms
  by (induction ps) (simp_all add: set_value_def unconstrained_value_def)

lemma with_parameters_parameters [simp]: "with_parameters (parameters self) self = self"
  by (simp add: with_parameters_def parameters_def)

lemma SSM_roundtrip:
  assumes "\<And>p. p \<in> set (parameters self) \<Longrightarrow> \<not> is_frozen p \<Longrightarrow>
             tfb_inverse L (bijector p) (tfb_forward L (bijector p) (pvalue p)) = pvalue p
             \<and> in_domain L (bijector p) (pvalue p)"
  shows "SSM_set_unconstrained_params L (SSM_unconstrained_params L self) self = Inr self"
  using write_back_roundtrip[OF assms]
  by (simp add: SSM_set_unconstrained_params_def SSM_unconstrained_params_def)

subsection \<open>fit_em without iterations\<close>

text \<open>
  C7. \<open>fit_em\<close> with \<open>num_iters=0\<close> returns an empty trajectory and leaves the model
  object, hence every constrained and unconstrained parameter value, as it was, for
  every batch of emissions: it reads the unconstrained parameters and writes them back.
  This holds for every model whose accessors give the object back on such a round trip,
  and so for every object built on \<open>StandardHMM\<close> whose trainable Parameters hold values
  that their bijectors map forth and back to themselves, inside the bijector's domain.
\<close>

theorem fit_em_zero_iters:
  "(set_unconstrained_params C (get_unconstrained_params C self) self = Inr self \<longrightarrow>
      fit_em I C m_step batch_emissions 0 self = Inr (of_list [], self)) \<and>
   ((\<forall>p \<in> set (parameters hmm). \<not> is_frozen p \<longrightarrow>
        tfb_inverse L (bijector p) (tfb_forward L (bijector p) (pvalue p)) = pvalue p
        \<and> in_domain L (bijector p) (pvalue p)) \<longrightarrow>
      fit_em I (StandardHMM_class L prior emission cl) m_step' batch_emissions 0 hmm
        = Inr (of_list [], hmm))"
proof (intro conjI impI)
  assume "set_unconstrained_params C (get_unconstrained_params C self) self = Inr self"
  then show "fit_em I C m_step batch_emissions 0 self = Inr (of_list [], self)"
    by (simp add: fit_em_def)
next
  assume "\<forall>p \<in> set (parameters hmm). \<not> is_frozen p \<longrightarrow>
        tfb_inverse L (bijector p) (tfb_forward L (bijector p) (pvalue p)) = pvalue p
        \<and> in_domain L (bijector p) (pvalue p)"
  then have "SSM_set_unconstrained_params L (SSM_unconstrained_params L hmm) hmm = Inr hmm"
    by (intro SSM_roundtrip) blast
  then show "fit_em I (StandardHMM_class L prior emission cl) m_step' batch_emissions 0 hmm
        = Inr (of_list [], hmm)"
    by (simp add: fit_em_def StandardHMM_class_def)
qed

theorem fit_em_zero_iters_witness:
  "fit_em ex_inference cov_class (\<lambda>be bp self. Inl NotImplementedError) ex_batch 0 ()
     = Inr (of_list [], ()) \<and>
   fit_em ex_inference (StandardHMM_class ex_library (\<lambda>self. 0)
       StandardHMM_emission_distribution None)
     (\<lambda>be bp self. Inl NotImplementedError) ex_batch 0 ex_hmm = Inr (of_list [], ex_hmm)"
  using fit_em_zero_iters[of cov_class "()" ex_inference "\<lambda>be bp self. Inl NotImplementedError"
      ex_batch ex_hmm ex_library "\<lambda>self. 0" StandardHMM_emission_distribution None
      "\<lambda>be bp self. Inl NotImplementedError"]
  by (simp add: cov_class_def ex_library_def)


lemma em_loop_add:
  "em_loop I C m be (i + j) st = ebind (em_loop I C m be i st) (em_loop I C m be j)"
proof (induction i arbitrary: st)
  case 0
  then show ?case by simp
next
  case (Suc i)
  obtain p acc s where st: "st = (p, acc, s)" using prod_cases3 by blast
  show ?case
    by (cases "em_step I C m be p s") (simp_all add: st Suc)
qed

lemma em_loop_acc:
  "em_loop I C m be n (p, acc, s) = Inr (p', acc', s') \<Longrightarrow>
     \<exists>new. acc' = acc @ new \<and> length new = n"
proof (induction n arbitrary: p acc s)
  case 0
  then show ?case by simp
next
  case (Suc n)
  from Suc.prems obtain r where
    "em_loop I C m be n (fst (fst r), acc @ [snd (fst r)], snd r) = Inr (p', acc', s')"
    by (auto elim: ebind_InrE)
  from Suc.IH[OF this] show ?case by auto
qed

lemma em_loop_entry:
  assumes "em_loop I C m be n (p0, [], s0) = Inr (p', acc', s')" and "i < n"
  shows "length acc' = n \<and> (\<exists>p acc s r. em_loop I C m be i (p0, [], s0) = Inr (p, acc, s) \<and>
           em_step I C m be p s = Inr r \<and> acc' ! i = snd (fst r))"
proof -
  from em_loop_acc[OF assms(1)] have len: "length acc' = n" by auto
  from assms(2) have n: "n = i + Suc (n - Suc i)" by simp
  from assms(1) obtain sti where
    sti: "em_loop I C m be i (p0, [], s0) = Inr sti"
    and rest: "em_loop I C m be (Suc (n - Suc i)) sti = Inr (p', acc', s')"
    by (subst (asm) n, subst (asm) em_loop_add) (erule ebind_InrE)
  obtain p acc s where st: "sti = (p, acc, s)" using prod_cases3 by blast
  from em_loop_acc[OF sti[unfolded st]] have lacc: "length acc = i" by auto
  from rest[unfolded st] obtain r where
    r: "em_step I C m be p s = Inr r"
    and fin: "em_loop I C m be (n - Suc i) (fst (fst r), acc @ [snd (fst r)], snd r)
                = Inr (p', acc', s')"
    by (auto elim: ebind_InrE)
  from em_loop_acc[OF fin] obtain new where "acc' = (acc @ [snd (fst r)]) @ new" by auto
  with lacc have "acc' ! i = snd (fst r)" by (simp add: nth_append)
  with len sti st r show ?thesis by blast
qed

lemma em_step_Inr:
  assumes "em_step I C m be p s = Inr r"
  shows "\<exists>self1 posts self2. set_unconstrained_params C p s = Inr self1 \<and>
           e_step I C self1 be = Inr posts \<and> m be posts self1 = Inr self2 \<and>
           r = ((get_unconstrained_params C self2,
                 log_prior C self1 + sum_all (marginal_loglik posts)), self2)"
  using assms unfolding em_step_def Let_def by (elim ebind_InrE) auto

lemma elem_of_list: "elem (of_list xs) [i] = xs ! i"
  by (simp add: of_list_def)

lemma em_loop_total:
  assumes "\<And>p s. \<exists>r. em_step I C m be p s = Inr r"
  shows "\<exists>r. em_loop I C m be n st = Inr r"
proof (induction n arbitrary: st)
  case 0
  show ?case by (rule exI[of _ st]) simp
next
  case (Suc n)
  obtain p acc s where st: "st = (p, acc, s)" using prod_cases3 by blast
  from assms obtain r where "em_step I C m be p s = Inr r" by blast
  with Suc show ?case by (simp add: st)
qed

lemma upt3: "[0..<3] = [0, 1, 2]"
  by code_simp

lemma e_step_cov_posts:
  "\<exists>posts. e_step ex_inference cov_class () ex_batch = Inr posts \<and>
     posterior_len posts = Inr 2 \<and> sum_all (marginal_loglik posts) = - 6"
proof -
  define LL where "LL = stack [2] (map (\<lambda>t. stack [] (map (\<lambda>k. scalar (- real k)) [0..<2])) [0..<3])"
  define P where "P = (hmm_two_filter_smoother ex_inference (of_list [1/2, 1/2])
       (stack [2] (map (\<lambda>i. of_list [1/2, 1/2]) [0..<2])) LL)
     \<lparr>trans_probs := \<lparr>shape = [2, 2], elem = (\<lambda>idx. \<Sum>i\<leftarrow>[0..<2].
         elem (stack [2] (map (\<lambda>i. of_list [1/2, 1/2]) [0..<2])) idx)\<rparr>\<rparr>"
  have ip: "compute_initial_probs cov_class () = of_list [1/2, 1/2]"
    by (simp add: compute_initial_probs_def cov_class_def)
  have single: "single_e_step ex_inference cov_class () (slice ex_batch i) = Inr P" for i
    unfolding single_e_step_def
    by (simp add: ctm_cov ccl_cov[OF ex_batch_shape(2)] ip reduce_or_retain_def ex_pairwise_def
          ndim_def ex_inference_def sum_axis0_def P_def LL_def)
  have tr: "vmap_trace 2 (\<lambda>i. single_e_step ex_inference cov_class () (slice ex_batch i))
              = Inr (P, map (\<lambda>i. P) [0..<2])"
    by (rule vmap_trace_Inr) (rule single)
  have sLL: "sum_all LL = - 3"
    by (simp add: LL_def sum_all_def stack_def scalar_def upt2 upt3)
  have ml: "marginal_loglik P = scalar (- 3)"
    by (simp add: P_def ex_inference_def sLL)
  have shapes: "shape (filtered_probs P) = [3, 2]" "shape (smoothed_probs P) = [3, 2]"
    "shape (initial_probs P) = [2]" "shape (trans_probs P) = [2, 2]"
    by (simp_all add: P_def ex_inference_def LL_def of_list_def)
  have "e_step ex_inference cov_class () ex_batch = Inr \<lparr>
      marginal_loglik = stack [] [scalar (- 3), scalar (- 3)],
      filtered_probs = stack [3, 2] [filtered_probs P, filtered_probs P],
      smoothed_probs = stack [3, 2] [smoothed_probs P, smoothed_probs P],
      initial_probs = stack [2] [initial_probs P, initial_probs P],
      trans_probs = stack [2, 2] [trans_probs P, trans_probs P]\<rparr>"
    unfolding e_step_def vmap_posterior_def
    by (simp add: ex_batch_shape tr stack_posteriors_def stack_out_def upt2 ml shapes)
       (simp add: scalar_def)
  then show ?thesis
    by (simp add: posterior_len_def kwargs_len_def sum_all_def stack_def scalar_def upt2)
qed


lemma BaseHMM_m_step_cov:
  assumes "posterior_len posts = Inr 2"
  shows "BaseHMM_m_step ex_library ex_settings cov_class ex_batch posts ex_optimizer 0 () = Inr ()"
  using assms
  by (simp add: BaseHMM_m_step_def run_sgd_def pair_tree_def len_def ex_batch_shape
        minibatches_def) (simp add: cov_class_def)

lemma em_step_cov:
  "\<exists>r. em_step ex_inference cov_class
     (\<lambda>be bp. BaseHMM_m_step ex_library ex_settings cov_class be bp ex_optimizer 0)
     ex_batch params s = Inr r"
proof -
  from e_step_cov_posts obtain posts where
    "e_step ex_inference cov_class () ex_batch = Inr posts" "posterior_len posts = Inr 2"
    by blast
  moreover have "set_unconstrained_params cov_class params s = Inr ()"
    by (simp add: cov_class_def)
  ultimately show ?thesis
    by (simp add: em_step_def BaseHMM_m_step_cov)
qed

subsection \<open>The trajectory of fit_em\<close>

text \<open>
  C6. When \<open>fit_em\<close> returns, the trajectory has one entry per iteration, and entry
  \<open>i\<close> is the log-prior plus the sum of the marginal log-likelihoods of the E-step
  posteriors of the batch, both at the parameters with which iteration \<open>i\<close> starts
  (the state after \<open>i\<close> passes of the loop, before the M-step of that iteration).
  \<open>fit_em\<close> returns whenever \<open>em_step\<close> raises for no parameters and no state of the
  model object.
\<close>

theorem fit_em_trajectory:
  "(\<forall>log_probs self'.
      fit_em I C m_step batch_emissions num_iters self = Inr (log_probs, self') \<longrightarrow>
      shape log_probs = [nat num_iters] \<and>
      (\<forall>i < nat num_iters. \<exists>params acc self_i self1 posts.
          em_loop I C m_step batch_emissions i (get_unconstrained_params C self, [], self)
            = Inr (params, acc, self_i) \<and>
          set_unconstrained_params C params self_i = Inr self1 \<and>
          e_step I C self1 batch_emissions = Inr posts \<and>
          elem log_probs [i] = log_prior C self1 + sum_all (marginal_loglik posts))) \<and>
   ((\<forall>params s. \<exists>r. em_step I C m_step batch_emissions params s = Inr r) \<longrightarrow>
      (\<exists>log_probs self'.
         fit_em I C m_step batch_emissions num_iters self = Inr (log_probs, self')))"
proof (intro conjI allI impI)
  fix log_probs self'
  assume fit: "fit_em I C m_step batch_emissions num_iters self = Inr (log_probs, self')"
  then obtain p' acc' s' where
    loop: "em_loop I C m_step batch_emissions (nat num_iters)
             (get_unconstrained_params C self, [], self) = Inr (p', acc', s')"
    and lp: "log_probs = of_list acc'"
    unfolding fit_em_def by (elim ebind_InrE) (auto elim: ebind_InrE)
  from em_loop_acc[OF loop] show "shape log_probs = [nat num_iters]"
    by (auto simp: lp of_list_def)
  fix i assume "i < nat num_iters"
  from em_loop_entry[OF loop this] obtain p acc s r where
    a: "em_loop I C m_step batch_emissions i (get_unconstrained_params C self, [], self)
          = Inr (p, acc, s)"
    and r: "em_step I C m_step batch_emissions p s = Inr r" and e: "acc' ! i = snd (fst r)"
    by blast
  from em_step_Inr[OF r] e a show "\<exists>params acc self_i self1 posts.
          em_loop I C m_step batch_emissions i (get_unconstrained_params C self, [], self)
            = Inr (params, acc, self_i) \<and>
          set_unconstrained_params C params self_i = Inr self1 \<and>
          e_step I C self1 batch_emissions = Inr posts \<and>
          elem log_probs [i] = log_prior C self1 + sum_all (marginal_loglik posts)"
    by (auto simp: lp elem_of_list)
next
  assume tot: "\<forall>params s. \<exists>r. em_step I C m_step batch_emissions params s = Inr r"
  then obtain st where
    loop: "em_loop I C m_step batch_emissions (nat num_iters)
             (get_unconstrained_params C self, [], self) = Inr st"
    using em_loop_total[of I C m_step batch_emissions] by blast
  obtain p acc s where st: "st = (p, acc, s)" using prod_cases3 by blast
  from tot obtain r where "em_step I C m_step batch_emissions p s = Inr r" by blast
  from em_step_Inr[OF this] obtain s1 where "set_unconstrained_params C p s = Inr s1"
    by blast
  with loop st show "\<exists>log_probs self'.
         fit_em I C m_step batch_emissions num_iters self = Inr (log_probs, self')"
    by (simp add: fit_em_def)
qed

theorem fit_em_trajectory_witness:
  "\<exists>log_probs. fit_em ex_inference cov_class
       (\<lambda>be bp. BaseHMM_m_step ex_library ex_settings cov_class be bp ex_optimizer 0)
       ex_batch 2 () = Inr (log_probs, ()) \<and>
     shape log_probs = [2] \<and> elem log_probs [0] = - 6 \<and> elem log_probs [1] = - 6"
proof -
  let ?m = "\<lambda>be bp. BaseHMM_m_step ex_library ex_settings cov_class be bp ex_optimizer 0"
  note t = fit_em_trajectory[of ex_inference cov_class ?m ex_batch 2 "()"]
  from t em_step_cov obtain log_probs where
    fit: "fit_em ex_inference cov_class ?m ex_batch 2 () = Inr (log_probs, ())"
    by auto
  from e_step_cov_posts obtain posts where
    posts: "e_step ex_inference cov_class () ex_batch = Inr posts"
      "sum_all (marginal_loglik posts) = - 6"
    by blast
  have lp: "log_prior cov_class s = 0" for s by (simp add: cov_class_def)
  from t fit have sh: "shape log_probs = [2]"
    and en: "\<forall>i<2. \<exists>params acc self_i self1 posts.
          em_loop ex_inference cov_class ?m ex_batch i
             (get_unconstrained_params cov_class (), [], ()) = Inr (params, acc, self_i) \<and>
          set_unconstrained_params cov_class params self_i = Inr self1 \<and>
          e_step ex_inference cov_class self1 ex_batch = Inr posts \<and>
          elem log_probs [i] = log_prior cov_class self1 + sum_all (marginal_loglik posts)"
    by simp_all
  have "elem log_probs [i] = - 6" if "i < 2" for i
    using en[rule_format, OF that] posts by (auto simp: lp)
  from this[of 0] this[of 1] sh fit show ?thesis by simp
qed


lemma chunks_props:
  "c \<in> set (chunks n xs) \<Longrightarrow> c \<noteq> [] \<and> set c \<subseteq> set xs \<and> length c \<le> n"
proof (induction n xs rule: chunks.induct)
  case (1 n xs)
  show ?case
  proof (cases "n = 0 \<or> xs = []")
    case True
    with "1.prems" show ?thesis by (subst (asm) chunks.simps) simp
  next
    case False
    with "1.prems" have "c = take n xs \<or> c \<in> set (chunks n (drop n xs))"
      by (subst (asm) chunks.simps) simp
    then show ?thesis
    proof
      assume "c = take n xs"
      with False show ?thesis by (auto dest: in_set_takeD)
    next
      assume "c \<in> set (chunks n (drop n xs))"
      from "1.IH"[OF False this] show ?thesis by (auto dest: in_set_dropD)
    qed
  qed
qed

lemma slice_take_rows:
  "b < length idxs \<Longrightarrow> slice (take_rows idxs a) b = slice a (idxs ! b)"
  by (simp add: slice_def take_rows_def)

lemma sum_all_slices:
  "shape a = n # sh \<Longrightarrow> sum_all a = (\<Sum>i\<leftarrow>[0..<n]. sum_all (slice a i))"
  by (simp add: sum_all_def slice_def)

lemma vmap_eq_Inr:
  assumes "vmap f xs = Inr ys" and "shape xs = n # sh"
  shows "\<exists>sh'. shape ys = n # sh' \<and> (\<forall>i<n. f (slice xs i) = Inr (slice ys i))"
proof -
  from assms obtain a0 as where
    tr: "vmap_trace n (\<lambda>i. f (slice xs i)) = Inr (a0, as)"
    and st: "stack_out (a0, as) = Inr ys"
    unfolding vmap_def by (simp, elim ebind_InrE) (metis surj_pair)
  from vmap_trace_eq_Inr[OF tr] stack_out_slice[OF st] stack_out_shape[OF st]
  show ?thesis by auto
qed

lemma minibatches_rows:
  assumes "minibatch \<in> set (minibatches S array_tree batch_emissions batch_size num_epochs
                             shuffle key N)"
    and "shuffle \<longrightarrow> (\<forall>epoch. set (permutation S key epoch N) \<subseteq> {..<N})"
  shows "\<exists>idxs. minibatch = take_rows idxs batch_emissions \<and> idxs \<noteq> [] \<and>
           length idxs \<le> batch_size \<and> set idxs \<subseteq> {..<N}"
proof -
  from assms(1) obtain epoch idxs where
    c: "idxs \<in> set (chunks batch_size (if shuffle then permutation S key epoch N else [0..<N]))"
    and m: "minibatch = take_rows idxs batch_emissions"
    by (auto simp: minibatches_def array_tree_def)
  from chunks_props[OF c] assms(2) have "idxs \<noteq> [] \<and> length idxs \<le> batch_size \<and> set idxs \<subseteq> {..<N}"
    by (auto split: if_splits)
  with m show ?thesis by blast
qed

lemma marginal_log_prob_cov:
  assumes "shape emissions = 3 # sh"
  shows "marginal_log_prob ex_inference cov_class () emissions = Inr (scalar (- 3))"
proof -
  have "sum_all (stack [2] (map (\<lambda>t. stack [] (map (\<lambda>k. scalar (- real k)) [0..<2])) [0..<3]))
          = - 3"
    by (simp add: sum_all_def stack_def scalar_def upt2 upt3)
  then show ?thesis
    unfolding marginal_log_prob_def
    by (simp add: ctm_cov ccl_cov[OF assms] ex_inference_def)
qed

lemma ex_minibatches:
  "minibatches ex_settings array_tree ex_batch 1 1 True 0 2
     = [take_rows [1] ex_batch, take_rows [0] ex_batch]"
proof -
  have "chunks 1 [1, 0::nat] = [[1], [0]]"
    by (simp add: chunks.simps)
  then show ?thesis
    by (simp add: minibatches_def ex_settings_def array_tree_def upt2)
qed

subsection \<open>The loss and the minibatches of fit_sgd\<close>

text \<open>
  C8. Let the batch hold \<open>N\<close> sequences. Every minibatch that \<open>run_sgd\<close> cuts from
  it, in order or in the order of a permutation of the sequences, holds between 1 and
  \<open>batch_size\<close> sequences, each of them a whole sequence of the batch. When the loss
  \<open>_loss_fn\<close> of \<open>fit_sgd\<close> returns on a minibatch of \<open>B\<close> sequences, it has set the
  parameters and its value is the negative of the log-prior plus \<open>N / B\<close> times the
  sum of the marginal log-likelihoods of the sequences of the minibatch, divided by
  the number of elements of the whole batch.
\<close>

theorem fit_sgd_loss_and_minibatches:
  assumes be: "shape batch_emissions = N # sh"
    and perm: "shuffle \<longrightarrow> (\<forall>epoch. set (permutation S key epoch N) \<subseteq> {..<N})"
    and mb: "minibatch \<in> set (minibatches S array_tree batch_emissions batch_size num_epochs
                               shuffle key N)"
  shows "\<exists>B. shape minibatch = B # sh \<and> 0 < B \<and> B \<le> batch_size \<and>
           (\<forall>b<B. \<exists>n<N. slice minibatch b = slice batch_emissions n) \<and>
           (\<forall>l self1. loss_fn I C batch_emissions params minibatch self = Inr (l, self1) \<longrightarrow>
              set_unconstrained_params C params self = Inr self1 \<and>
              (\<exists>lls. (\<forall>b<B. marginal_log_prob I C self1 (slice minibatch b) = Inr (lls b)) \<and>
                 l = - (log_prior C self1
                        + (\<Sum>b\<leftarrow>[0..<B]. sum_all (lls b)) * (real N / real B))
                     / real (asize batch_emissions)))"
proof -
  from minibatches_rows[OF mb perm] obtain idxs where
    m: "minibatch = take_rows idxs batch_emissions" and ne: "idxs \<noteq> []"
    and le: "length idxs \<le> batch_size" and sub: "set idxs \<subseteq> {..<N}"
    by blast
  let ?B = "length idxs"
  have shm: "shape minibatch = ?B # sh" by (simp add: m take_rows_def be)
  have rows: "\<exists>n<N. slice minibatch b = slice batch_emissions n" if "b < ?B" for b
  proof -
    from that have "idxs ! b \<in> set idxs" by simp
    with sub have "idxs ! b < N" by blast
    with that show ?thesis
      by (intro exI[of _ "idxs ! b"]) (simp add: m slice_take_rows)
  qed
  have loss: "set_unconstrained_params C params self = Inr self1 \<and>
              (\<exists>lls. (\<forall>b<?B. marginal_log_prob I C self1 (slice minibatch b) = Inr (lls b)) \<and>
                 l = - (log_prior C self1
                        + (\<Sum>b\<leftarrow>[0..<?B]. sum_all (lls b)) * (real N / real ?B))
                     / real (asize batch_emissions))"
    if "loss_fn I C batch_emissions params minibatch self = Inr (l, self1)" for l self1
  proof -
    from that obtain s1 scale mlls where
      s1: "set_unconstrained_params C params self = Inr s1"
      and sc: "len_ratio batch_emissions minibatch = Inr scale"
      and v: "vmap (marginal_log_prob I C s1) minibatch = Inr mlls"
      and l: "l = - (log_prior C s1 + sum_all mlls * scale) / real (asize batch_emissions)"
      and e: "self1 = s1"
      unfolding loss_fn_def Let_def by (elim ebind_InrE) auto
    from sc have scale: "scale = real N / real ?B"
      by (auto simp: len_ratio_def len_def be shm split: if_splits)
    from vmap_eq_Inr[OF v shm] obtain sh' where
      sh': "shape mlls = ?B # sh'"
      and el: "\<forall>i<?B. marginal_log_prob I C s1 (slice minibatch i) = Inr (slice mlls i)"
      by blast
    have "l = - (log_prior C self1
                  + (\<Sum>b\<leftarrow>[0..<?B]. sum_all (slice mlls b)) * (real N / real ?B))
               / real (asize batch_emissions)"
      unfolding l e scale sum_all_slices[OF sh'] by (rule refl)
    with s1 el show ?thesis
      unfolding e by (intro conjI exI[of _ "slice mlls"]) assumption+
  qed
  from ne have "0 < ?B" by simp
  show ?thesis
  proof (rule exI[of _ ?B], intro conjI)
    show "shape minibatch = ?B # sh" by (rule shm)
    show "0 < ?B" by (rule \<open>0 < ?B\<close>)
    show "?B \<le> batch_size" by (rule le)
    show "\<forall>b<?B. \<exists>n<N. slice minibatch b = slice batch_emissions n"
      using rows by blast
    show "\<forall>l self1. loss_fn I C batch_emissions params minibatch self = Inr (l, self1) \<longrightarrow>
              set_unconstrained_params C params self = Inr self1 \<and>
              (\<exists>lls. (\<forall>b<?B. marginal_log_prob I C self1 (slice minibatch b) = Inr (lls b)) \<and>
                 l = - (log_prior C self1
                        + (\<Sum>b\<leftarrow>[0..<?B]. sum_all (lls b)) * (real N / real ?B))
                     / real (asize batch_emissions))"
      using loss by (intro allI impI)
  qed
qed

theorem fit_sgd_loss_and_minibatches_witness:
  "take_rows [1] ex_batch \<in> set (minibatches ex_settings array_tree ex_batch 1 1 True 0 2) \<and>
   shape (take_rows [1] ex_batch) = [1, 3] \<and>
   slice (take_rows [1] ex_batch) 0 = slice ex_batch 1 \<and>
   loss_fn ex_inference cov_class ex_batch [] (take_rows [1] ex_batch) () = Inr (1, ())"
proof -
  let ?mb = "take_rows [1] ex_batch"
  have mem: "?mb \<in> set (minibatches ex_settings array_tree ex_batch 1 1 True 0 2)"
    unfolding ex_minibatches by simp
  have perm: "True \<longrightarrow> (\<forall>epoch. set (permutation ex_settings 0 epoch 2) \<subseteq> {..<2})"
    by (auto simp: ex_settings_def)
  have shmb: "shape ?mb = 1 # [3]" by (simp add: take_rows_def ex_batch_shape)
  have sl: "shape (slice ?mb i) = 3 # []" for i
    by (simp add: slice_def take_rows_def ex_batch_shape)
  have tr: "vmap_trace 1 (\<lambda>i. marginal_log_prob ex_inference cov_class () (slice ?mb i))
              = Inr (scalar (- 3), map (\<lambda>i. scalar (- 3)) [0..<1])"
    by (rule vmap_trace_Inr) (rule marginal_log_prob_cov[OF sl])
  have "\<exists>l. loss_fn ex_inference cov_class ex_batch [] ?mb () = Inr (l, ())"
    unfolding loss_fn_def
    using tr
    by (simp add: len_ratio_def len_def ex_batch_shape take_rows_def[of _ ex_batch, THEN arg_cong[of _ _ shape]]
          vmap_def stack_out_def cov_class_def)
  then obtain l where l: "loss_fn ex_inference cov_class ex_batch [] ?mb () = Inr (l, ())"
    by blast
  from fit_sgd_loss_and_minibatches[OF ex_batch_shape(1) perm mem,
      of ex_inference cov_class "[]" "()"]
  obtain B where B: "shape ?mb = B # [3]"
    and rows: "\<forall>b<B. \<exists>n<2. slice ?mb b = slice ex_batch n"
    and loss: "\<forall>l self1. loss_fn ex_inference cov_class ex_batch [] ?mb () = Inr (l, self1) \<longrightarrow>
              set_unconstrained_params cov_class [] () = Inr self1 \<and>
              (\<exists>lls. (\<forall>b<B. marginal_log_prob ex_inference cov_class self1 (slice ?mb b)
                          = Inr (lls b)) \<and>
                 l = - (log_prior cov_class self1
                        + (\<Sum>b\<leftarrow>[0..<B]. sum_all (lls b)) * (real 2 / real B))
                     / real (asize ex_batch))"
    by blast
  from B shmb have B1: "B = 1" by simp
  from loss[rule_format, OF l] obtain lls where
    lls: "\<forall>b<B. marginal_log_prob ex_inference cov_class () (slice ?mb b) = Inr (lls b)"
    and lv: "l = - (log_prior cov_class ()
                        + (\<Sum>b\<leftarrow>[0..<B]. sum_all (lls b)) * (real 2 / real B))
                     / real (asize ex_batch)"
    by blast
  from lls[rule_format, of 0] B1 marginal_log_prob_cov[OF sl, of 0]
  have "lls 0 = scalar (- 3)" by simp
  then have "l = 1"
    by (simp add: lv B1 cov_class_def asize_def ex_batch_shape sum_all_def scalar_def)
  moreover have "slice ?mb 0 = slice ex_batch 1"
    by (simp add: slice_take_rows)
  ultimately show ?thesis using mem shmb l by simp
qed


lemma frame_refl: "frame ps ps"
  by (simp add: list_all2_refl)

lemma frame_trans: "frame ps qs \<Longrightarrow> frame qs rs \<Longrightarrow> frame ps rs"
  by (erule list_all2_trans[rotated], assumption) auto

lemma write_back_frame:
  "write_back L ps vs = Inr ps' \<Longrightarrow>
     frame ps ps' \<and>
     map pvalue (filter (\<lambda>p. \<not> is_frozen p) ps')
       = map2 (\<lambda>p v. tfb_inverse L (bijector p) v) (filter (\<lambda>p. \<not> is_frozen p) ps) vs \<and>
     length vs = length (filter (\<lambda>p. \<not> is_frozen p) ps)"
proof (induction ps arbitrary: vs ps')
  case Nil
  then show ?case by (cases vs) simp_all
next
  case (Cons p ps)
  show ?case
  proof (cases "is_frozen p")
    case True
    with Cons.prems obtain qs where qs: "write_back L ps vs = Inr qs" and ps': "ps' = p # qs"
      by (auto elim: ebind_InrE)
    from Cons.IH[OF qs] True show ?thesis by (simp add: ps')
  next
    case False
    with Cons.prems obtain v vs' where vs: "vs = v # vs'"
      by (cases vs) simp_all
    from Cons.prems False vs obtain p' qs where
      p': "set_value L (tfb_inverse L (bijector p) v) p = Inr p'"
      and qs: "write_back L ps vs' = Inr qs" and ps': "ps' = p' # qs"
      by (auto elim!: ebind_InrE)
    from set_value_eq_Inr[OF p'] have "p' = p\<lparr>pvalue := tfb_inverse L (bijector p) v\<rparr>" .
    with Cons.IH[OF qs] False show ?thesis by (simp add: ps' vs)
  qed
qed

lemma parameters_with_parameters:
  "length ps = length (parameters self) \<Longrightarrow> parameters (with_parameters ps self) = ps"
  by (auto simp: parameters_def with_parameters_def split: list.splits)

lemma SSM_set_frame:
  assumes "SSM_set_unconstrained_params L vs self = Inr self'"
  shows "frame (parameters self) (parameters self')"
    and "map pvalue (filter (\<lambda>p. \<not> is_frozen p) (parameters self'))
       = map2 (\<lambda>p v. tfb_inverse L (bijector p) v)
           (filter (\<lambda>p. \<not> is_frozen p) (parameters self)) vs"
proof -
  from assms obtain ps where wb: "write_back L (parameters self) vs = Inr ps"
    and s': "self' = with_parameters ps self"
    unfolding SSM_set_unconstrained_params_def by (auto elim: ebind_InrE)
  from write_back_frame[OF wb] have f: "frame (parameters self) ps" by simp
  then have "length ps = length (parameters self)" by (simp add: list_all2_lengthD)
  then have eq: "parameters self' = ps" by (simp add: s' parameters_with_parameters)
  from f eq show "frame (parameters self) (parameters self')" by simp
  from write_back_frame[OF wb] eq show "map pvalue (filter (\<lambda>p. \<not> is_frozen p) (parameters self'))
       = map2 (\<lambda>p v. tfb_inverse L (bijector p) v)
           (filter (\<lambda>p. \<not> is_frozen p) (parameters self)) vs" by simp
qed

lemma foldM_e_invariant:
  assumes "foldM_e f acc xs = Inr r" and "P acc"
    and "\<And>a x a'. P a \<Longrightarrow> f a x = Inr a' \<Longrightarrow> P a'"
  shows "P r"
  using assms(1,2)
proof (induction xs arbitrary: acc)
  case Nil
  then show ?case by simp
next
  case (Cons x xs)
  from Cons.prems(1) obtain a' where "f acc x = Inr a'" "foldM_e f a' xs = Inr r"
    by (auto elim: ebind_InrE)
  with Cons.IH[of a'] assms(3)[OF Cons.prems(2)] show ?case by blast
qed

lemma run_sgd_frame:
  assumes run: "run_sgd S T loss params dataset opt batch_size num_epochs shuffle key self
                  = Inr (r, self')"
    and loss: "\<And>p mb s l s1. loss p mb s = Inr (l, s1) \<Longrightarrow> frame (parameters s) (parameters s1)"
  shows "frame (parameters self) (parameters self')"
proof -
  from run obtain n st where
    f: "foldM_e (sgd_step opt loss) (params, opt_init opt params, [], self)
          (minibatches S T dataset batch_size num_epochs shuffle key n) = Inr st"
    and st: "snd (snd (snd st)) = self'"
    unfolding run_sgd_def by (elim ebind_InrE) (auto split: prod.splits)
  have step: "frame (parameters self) (parameters (snd (snd (snd a'))))"
    if "frame (parameters self) (parameters (snd (snd (snd a))))"
      and "sgd_step opt loss a x = Inr a'" for a x a'
  proof -
    obtain p os ls s where a: "a = (p, os, ls, s)" using prod_cases4 by blast
    from that(2) obtain r where "loss p x s = Inr r" "snd (snd (snd a')) = snd r"
      unfolding sgd_step_def a by (auto elim!: ebind_InrE simp: Let_def)
    with loss[of p x s "fst r" "snd r"] that(1) show ?thesis
      by (simp add: a) (erule frame_trans, simp)
  qed
  from foldM_e_invariant[where P="\<lambda>a. frame (parameters self) (parameters (snd (snd (snd a))))",
      OF f _ step] st
  show ?thesis by (simp add: frame_refl)
qed


lemma neg_expected_log_joint_sets:
  "neg_expected_log_joint L' (StandardHMM_class L prior emission cl) be p mb s = Inr (l, s1)
     \<Longrightarrow> SSM_set_unconstrained_params L p s = Inr s1"
  unfolding neg_expected_log_joint_def Let_def
  by (cases mb, simp, elim ebind_InrE) (auto simp: StandardHMM_class_def)

lemma neg_expected_log_joint_emissions_sets:
  "neg_expected_log_joint_emissions (StandardHMM_class L prior emission cl) be p mb s = Inr (l, s1)
     \<Longrightarrow> SSM_set_unconstrained_params L p s = Inr s1"
  unfolding neg_expected_log_joint_emissions_def Let_def
  by (cases mb, simp, elim ebind_InrE) (auto simp: StandardHMM_class_def)

lemma m_step_initial_probs_frame:
  assumes "m_step_initial_probs L be bp self = Inr self1" and "\<not> is_frozen (hmm_initial_probs self)"
  shows "frame (parameters self) (parameters self1)"
proof -
  from assms(1) obtain v p where "set_value L v (hmm_initial_probs self) = Inr p"
    and s1: "self1 = self\<lparr>hmm_initial_probs := p\<rparr>"
    unfolding m_step_initial_probs_def by (elim ebind_InrE) auto
  from set_value_eq_Inr[OF this(1)] assms(2) show ?thesis
    by (simp add: s1 parameters_def list_all2_refl)
qed

lemma m_step_transition_matrix_frame:
  assumes "m_step_transition_matrix L be bp self = Inr self1"
    and "\<not> is_frozen (hmm_transition_matrix self)"
  shows "frame (parameters self) (parameters self1)"
proof -
  from assms(1) obtain v p where "set_value L v (hmm_transition_matrix self) = Inr p"
    and s1: "self1 = self\<lparr>hmm_transition_matrix := p\<rparr>"
    unfolding m_step_transition_matrix_def by (elim ebind_InrE) auto
  from set_value_eq_Inr[OF this(1)] assms(2) show ?thesis
    by (simp add: s1 parameters_def list_all2_refl)
qed

lemma frame_concentrations:
  assumes "frame (parameters self) (parameters self')"
  shows "is_frozen (hmm_initial_probs_concentration self) \<longrightarrow>
           hmm_initial_probs_concentration self' = hmm_initial_probs_concentration self"
    and "is_frozen (hmm_transition_matrix_concentration self) \<longrightarrow>
           hmm_transition_matrix_concentration self' = hmm_transition_matrix_concentration self"
    and "map bijector (filter (\<lambda>p. \<not> is_frozen p) (parameters self'))
           = map bijector (filter (\<lambda>p. \<not> is_frozen p) (parameters self))"
proof -
  from assms show "is_frozen (hmm_initial_probs_concentration self) \<longrightarrow>
           hmm_initial_probs_concentration self' = hmm_initial_probs_concentration self"
    and "is_frozen (hmm_transition_matrix_concentration self) \<longrightarrow>
           hmm_transition_matrix_concentration self' = hmm_transition_matrix_concentration self"
    by (simp_all add: parameters_def)
  have "map bijector (filter (\<lambda>p. \<not> is_frozen p) qs)
           = map bijector (filter (\<lambda>p. \<not> is_frozen p) ps)" if "frame ps qs" for ps qs
    using that by (induction rule: list_all2_induct) auto
  from this[OF assms] show "map bijector (filter (\<lambda>p. \<not> is_frozen p) (parameters self'))
           = map bijector (filter (\<lambda>p. \<not> is_frozen p) (parameters self))" .
qed

lemma map2_bijector_cong:
  assumes "map bijector ps = map bijector qs"
  shows "map2 (\<lambda>p v. tfb_inverse L (bijector p) v) ps vs
           = map2 (\<lambda>p v. tfb_inverse L (bijector p) v) qs vs"
proof -
  have "map2 (\<lambda>p v. tfb_inverse L (bijector p) v) ps vs
          = map2 (\<lambda>b v. tfb_inverse L b v) (map bijector ps) vs" for ps
    by (simp add: zip_map1 case_prod_beta)
  from this[of ps] this[of qs] assms show ?thesis by (simp only:)
qed

lemma broadcast_rev_same: "broadcast_rev xs xs = Some xs"
  by (induction xs) simp_all

lemma elementwise_same_shape:
  "shape a = shape b \<Longrightarrow> \<exists>c. elementwise f a b = Inr c \<and> shape c = shape a"
  by (simp add: elementwise_def broadcast_shapes_def broadcast_rev_same)

lemma vmap_trace_ex:
  assumes "\<And>i. \<exists>a. f i = Inr a \<and> P a"
  shows "\<exists>a0 as. vmap_trace n f = Inr (a0, as) \<and> P a0 \<and> (\<forall>a\<in>set as. P a)"
proof -
  from assms obtain g where g: "\<And>i. f i = Inr (g i)" "\<And>i. P (g i)" by metis
  from vmap_trace_Inr[of f g n, OF g(1)] g(2) show ?thesis by auto
qed

lemma ex_hmm_roundtrip:
  "SSM_set_unconstrained_params ex_library (SSM_unconstrained_params ex_library self) self
     = Inr self"
  by (rule SSM_roundtrip) (simp add: ex_library_def)

lemma ex_class_stats:
  "compute_initial_probs ex_class ex_hmm = ex_initial_probs"
  "compute_transition_matrices ex_class ex_hmm [] =
     Inr (stack [2] (map (\<lambda>i. slice ex_transition_matrix i) [0..<2]))"
proof -
  show "compute_initial_probs ex_class ex_hmm = ex_initial_probs"
    by (simp add: compute_initial_probs_def ex_class_def StandardHMM_class_def
          StandardHMM_initial_distribution_def ex_hmm_def Parameter_def)
  show "compute_transition_matrices ex_class ex_hmm [] =
     Inr (stack [2] (map (\<lambda>i. slice ex_transition_matrix i) [0..<2]))"
    by (rule compute_transition_matrices_Inr[where
          d="\<lambda>i. Categorical (slice ex_transition_matrix i)" and rest="[]", simplified])
       (simp_all add: ex_class_def StandardHMM_class_def StandardHMM_initial_distribution_def
          StandardHMM_transition_distribution_def ex_hmm_def Parameter_def
          ex_initial_probs_def ex_transition_matrix_def of_list_def of_rows_def slice_def)
qed

lemma ex_class_logliks:
  assumes "shape emissions = 3 # sh"
  shows "\<exists>lls. compute_conditional_logliks ex_class ex_hmm emissions = Inr lls \<and>
           shape lls = [3, 2]"
proof -
  have "compute_conditional_logliks ex_class ex_hmm emissions =
          Inr (stack (2 # []) (map (\<lambda>t. stack []
             (map (\<lambda>k. log_prob (Distribution (\<lambda>e. scalar (- (item e - elem (of_list [0, 1]) [k])\<^sup>2)))
                (slice emissions t)) [0..<2])) [0..<3]))"
    by (rule compute_conditional_logliks_Inr[OF _ assms, where rest="[]"])
       (simp_all add: ex_class_def StandardHMM_class_def StandardHMM_initial_distribution_def
          ex_emission_def ex_hmm_def Parameter_def ex_initial_probs_def of_list_def scalar_def)
  then show ?thesis by simp
qed


lemma ex_posteriors_shapes:
  "shape (marginal_loglik ex_posteriors) = [2]" "shape (filtered_probs ex_posteriors) = [2, 3, 2]"
  "shape (smoothed_probs ex_posteriors) = [2, 3, 2]" "shape (initial_probs ex_posteriors) = [2, 2]"
  "shape (trans_probs ex_posteriors) = [2, 2, 2]"
  by (simp_all add: ex_posteriors_def of_list_def of_rows_def)

lemma single_expected_log_joint_ex:
  assumes "shape emissions = 3 # sh" and "shape (smoothed_probs post) = [3, 2]"
    and "shape (trans_probs post) = [2, 2]"
  shows "\<exists>a. single_expected_log_joint ex_library ex_class ex_hmm emissions post = Inr a
           \<and> shape a = []"
proof -
  from ex_class_logliks[OF assms(1)] obtain lls where
    lls: "compute_conditional_logliks ex_class ex_hmm emissions = Inr lls" "shape lls = [3, 2]"
    by blast
  have i0: "index0 (smoothed_probs post) = Inr (slice (smoothed_probs post) 0)"
    by (simp add: index0_def assms(2))
  obtain t1 where t1: "elementwise (*) (slice (smoothed_probs post) 0)
      (map_array (jnp_log ex_library) ex_initial_probs) = Inr t1"
    using elementwise_same_shape[of "slice (smoothed_probs post) 0"
        "map_array (jnp_log ex_library) ex_initial_probs" "(*)"]
    by (auto simp: slice_def assms(2) map_array_def ex_initial_probs_def of_list_def)
  obtain t2 where t2: "elementwise (*) (trans_probs post)
      (map_array (jnp_log ex_library) (stack [2] (map (\<lambda>i. slice ex_transition_matrix i) [0..<2])))
      = Inr t2"
    using elementwise_same_shape[of "trans_probs post"
        "map_array (jnp_log ex_library) (stack [2] (map (\<lambda>i. slice ex_transition_matrix i) [0..<2]))"
        "(*)"]
    by (auto simp: assms(3) map_array_def)
  obtain t3 where t3: "elementwise (*) (smoothed_probs post) lls = Inr t3"
    using elementwise_same_shape[of "smoothed_probs post" lls "(*)"]
    by (auto simp: assms(2) lls(2))
  show ?thesis
    unfolding single_expected_log_joint_def
    by (simp add: ex_class_stats lls(1) i0 t1 t2 t3 scalar_def)
qed

lemma neg_expected_log_joint_ex:
  assumes "i < 2"
  shows "\<exists>l. neg_expected_log_joint ex_library ex_class ex_batch
           (SSM_unconstrained_params ex_library ex_hmm)
           (tree_rows pair_tree [i] (ex_batch, ex_posteriors)) ex_hmm = Inr (l, ex_hmm)"
proof -
  let ?em = "take_rows [i] ex_batch" and ?ps = "posterior_take_rows [i] ex_posteriors"
  have she: "shape ?em = [Suc 0, 3]" by (simp add: take_rows_def ex_batch_shape)
  have lr: "len_ratio ex_batch ?em = Inr 2"
    by (simp add: len_ratio_def len_def ex_batch_shape she)
  have pl: "posterior_len ?ps = Inr (Suc 0)"
    by (simp add: posterior_len_def kwargs_len_def posterior_take_rows_def take_rows_def)
  have set: "set_unconstrained_params ex_class (SSM_unconstrained_params ex_library ex_hmm) ex_hmm
               = Inr ex_hmm"
    by (simp add: ex_class_def StandardHMM_class_def ex_hmm_roundtrip)
  have "\<exists>a. single_expected_log_joint ex_library ex_class ex_hmm (slice ?em j)
               (posterior_slice ?ps j) = Inr a \<and> shape a = []" for j
    by (rule single_expected_log_joint_ex[where sh="[]"])
       (simp_all add: slice_def ex_batch_shape posterior_slice_def posterior_take_rows_def
          take_rows_def ex_posteriors_shapes)
  from vmap_trace_ex[of "\<lambda>j. single_expected_log_joint ex_library ex_class ex_hmm (slice ?em j)
               (posterior_slice ?ps j)" "\<lambda>a. shape a = []" "Suc 0", OF this]
  obtain a0 as where tr: "vmap_trace (Suc 0) (\<lambda>j. single_expected_log_joint ex_library ex_class
        ex_hmm (slice ?em j) (posterior_slice ?ps j)) = Inr (a0, as)"
    and sh: "shape a0 = []" "\<forall>a\<in>set as. shape a = []"
    by blast
  have v: "vmap2 (single_expected_log_joint ex_library ex_class ex_hmm) ?em ?ps
             = Inr (stack [] as)"
    by (simp add: vmap2_def she pl tr stack_out_def list_all_iff sh)
  show ?thesis
    unfolding neg_expected_log_joint_def
    by (simp add: pair_tree_def lr set v Let_def)
qed

lemma sgd_loop_ex:
  assumes "\<And>mb. mb \<in> set mbs \<Longrightarrow> \<exists>l. loss params mb s0 = Inr (l, s0)"
  shows "\<exists>ls'. foldM_e (sgd_step ex_optimizer loss) (params, (), ls, s0) mbs
           = Inr (params, (), ls', s0)"
  using assms
proof (induction mbs arbitrary: ls)
  case Nil
  then show ?case by simp
next
  case (Cons mb mbs)
  from Cons.prems[of mb] obtain l where "loss params mb s0 = Inr (l, s0)" by auto
  then have "sgd_step ex_optimizer loss (params, (), ls, s0) mb = Inr (params, (), ls @ [l], s0)"
    by (simp add: sgd_step_def ex_optimizer_def Let_def)
  with Cons.IH[of "ls @ [l]"] Cons.prems show ?case by simp
qed

lemma ex_pair_minibatches:
  "minibatches ex_settings pair_tree (ex_batch, ex_posteriors) (Suc 0) 1 False 0 2
     = [tree_rows pair_tree [0] (ex_batch, ex_posteriors),
        tree_rows pair_tree [1] (ex_batch, ex_posteriors)]"
proof -
  have "chunks (Suc 0) [0, 1::nat] = [[0], [1]]"
    by (simp add: chunks.simps)
  then show ?thesis
    by (simp add: minibatches_def upt2)
qed

lemma BaseHMM_m_step_ex:
  "BaseHMM_m_step ex_library ex_settings ex_class ex_batch ex_posteriors ex_optimizer 1 ex_hmm
     = Inr ex_hmm"
proof -
  have tl: "tree_len pair_tree (ex_batch, ex_posteriors) = Inr 2"
    by (simp add: pair_tree_def len_def ex_batch_shape posterior_len_ex)
  have "\<exists>l. neg_expected_log_joint ex_library ex_class ex_batch
           (SSM_unconstrained_params ex_library ex_hmm) mb ex_hmm = Inr (l, ex_hmm)"
    if "mb \<in> set (minibatches ex_settings pair_tree (ex_batch, ex_posteriors) (Suc 0) 1 False 0 2)"
    for mb
    using that neg_expected_log_joint_ex[of 0] neg_expected_log_joint_ex[of 1]
    unfolding ex_pair_minibatches by auto
  from sgd_loop_ex[of _ "neg_expected_log_joint ex_library ex_class ex_batch"
      "SSM_unconstrained_params ex_library ex_hmm" ex_hmm "[]", OF this]
  obtain ls' where "foldM_e (sgd_step ex_optimizer
        (neg_expected_log_joint ex_library ex_class ex_batch))
      (SSM_unconstrained_params ex_library ex_hmm, (), [], ex_hmm)
      (minibatches ex_settings pair_tree (ex_batch, ex_posteriors) (Suc 0) 1 False 0 2)
      = Inr (SSM_unconstrained_params ex_library ex_hmm, (), ls', ex_hmm)"
    by blast
  then show ?thesis
    unfolding BaseHMM_m_step_def run_sgd_def
    by (simp add: tl ex_class_def StandardHMM_class_def ex_settings_def ex_optimizer_def
          ex_hmm_roundtrip)
qed


lemma ex_closed_form_steps:
  "\<exists>self1 self2. m_step_initial_probs ex_library ex_batch ex_posteriors ex_hmm = Inr self1 \<and>
     m_step_transition_matrix ex_library ex_batch ex_posteriors self1 = Inr self2"
proof -
  obtain self1 where s1: "m_step_initial_probs ex_library ex_batch ex_posteriors ex_hmm = Inr self1"
    by (simp add: m_step_initial_probs_def ex_posteriors_def ex_hmm_def ex_library_def
          sum_axis0_def of_rows_def Parameter_def scaled_ones_def elementwise_def
          broadcast_shapes_def set_value_def)
  have c: "hmm_transition_matrix_concentration self1 = hmm_transition_matrix_concentration ex_hmm"
    using s1 unfolding m_step_initial_probs_def by (elim ebind_InrE) auto
  have "\<exists>self2. m_step_transition_matrix ex_library ex_batch ex_posteriors self1 = Inr self2"
    by (simp add: m_step_transition_matrix_def c ex_posteriors_def ex_hmm_def ex_library_def
          sum_axis0_def of_rows_def Parameter_def scaled_ones_def elementwise_def
          broadcast_shapes_def set_value_def)
  with s1 show ?thesis by blast
qed

lemma m_step_emissions_zero_ex:
  "m_step_emissions ex_settings ex_class ex_batch ex_posteriors ex_optimizer 0 self = Inr self"
proof -
  have tl: "tree_len pair_tree (ex_batch, ex_posteriors) = Inr 2"
    by (simp add: pair_tree_def len_def ex_batch_shape posterior_len_ex)
  show ?thesis
    unfolding m_step_emissions_def run_sgd_def
    by (simp add: tl minibatches_def ex_class_def StandardHMM_class_def ex_hmm_roundtrip)
qed

lemma StandardHMM_m_step_ex:
  "\<exists>self'. StandardHMM_m_step ex_library ex_settings ex_class ex_batch ex_posteriors
      ex_optimizer 0 ex_hmm = Inr self'"
  using ex_closed_form_steps
  by (auto simp: StandardHMM_m_step_def m_step_emissions_zero_ex)

subsection \<open>The frame of the M-step\<close>

text \<open>
  C2. \<open>m_step\<close> returns nothing but the updated model object.
  \<open>StandardHMM.__init__\<close> freezes the two concentration Parameters and leaves the
  initial probabilities and the transition matrix trainable. When \<open>BaseHMM.m_step\<close>
  returns on an object built on \<open>StandardHMM\<close>, and when \<open>StandardHMM.m_step\<close> returns
  on such an object whose initial probabilities and transition matrix are trainable,
  every Parameter keeps its frozen flag and its bijector, every frozen Parameter, so
  each of the two concentrations, is what it was, and the values of the trainable
  Parameters are the inverse images, under their bijectors, of the parameters that the
  optimizer returned.
\<close>

theorem m_step_frame:
  "(\<forall>m. StandardHMM_init ip tm c1 c2 = Inr m \<longrightarrow>
      is_frozen (hmm_initial_probs_concentration m) \<and>
      is_frozen (hmm_transition_matrix_concentration m) \<and>
      \<not> is_frozen (hmm_initial_probs m) \<and> \<not> is_frozen (hmm_transition_matrix m)) \<and>
   (\<forall>self'.
      BaseHMM_m_step L S (StandardHMM_class L prior emission cl) be bp opt n self = Inr self' \<longrightarrow>
      frame (parameters self) (parameters self') \<and>
      (is_frozen (hmm_initial_probs_concentration self) \<longrightarrow>
         hmm_initial_probs_concentration self' = hmm_initial_probs_concentration self) \<and>
      (is_frozen (hmm_transition_matrix_concentration self) \<longrightarrow>
         hmm_transition_matrix_concentration self' = hmm_transition_matrix_concentration self) \<and>
      (\<exists>params losses s.
         run_sgd S pair_tree (neg_expected_log_joint L (StandardHMM_class L prior emission cl) be)
           (SSM_unconstrained_params L self) (be, bp) opt (default_batch_size S) n
           (default_shuffle S) (default_key S) self = Inr ((params, losses), s) \<and>
         map pvalue (filter (\<lambda>p. \<not> is_frozen p) (parameters self'))
           = map2 (\<lambda>p v. tfb_inverse L (bijector p) v)
               (filter (\<lambda>p. \<not> is_frozen p) (parameters self)) params)) \<and>
   (\<forall>self'.
      \<not> is_frozen (hmm_initial_probs self) \<and> \<not> is_frozen (hmm_transition_matrix self) \<and>
      StandardHMM_m_step L S (StandardHMM_class L prior emission cl) be bp opt n self
        = Inr self' \<longrightarrow>
      frame (parameters self) (parameters self') \<and>
      (is_frozen (hmm_initial_probs_concentration self) \<longrightarrow>
         hmm_initial_probs_concentration self' = hmm_initial_probs_concentration self) \<and>
      (is_frozen (hmm_transition_matrix_concentration self) \<longrightarrow>
         hmm_transition_matrix_concentration self' = hmm_transition_matrix_concentration self) \<and>
      (\<exists>self1 self2 params losses s.
         m_step_initial_probs L be bp self = Inr self1 \<and>
         m_step_transition_matrix L be bp self1 = Inr self2 \<and>
         run_sgd S pair_tree
           (neg_expected_log_joint_emissions (StandardHMM_class L prior emission cl) be)
           (SSM_unconstrained_params L self2) (be, bp) opt (default_batch_size S) n
           (default_shuffle S) (default_key S) self2 = Inr ((params, losses), s) \<and>
         map pvalue (filter (\<lambda>p. \<not> is_frozen p) (parameters self'))
           = map2 (\<lambda>p v. tfb_inverse L (bijector p) v)
               (filter (\<lambda>p. \<not> is_frozen p) (parameters self)) params))"
proof (intro conjI allI impI)
  fix m assume "StandardHMM_init ip tm c1 c2 = Inr m"
  then show "is_frozen (hmm_initial_probs_concentration m)"
    "is_frozen (hmm_transition_matrix_concentration m)"
    "\<not> is_frozen (hmm_initial_probs m)" "\<not> is_frozen (hmm_transition_matrix m)"
    by (auto simp: StandardHMM_init_def Parameter_def split: list.splits if_splits)
next
  let ?C = "StandardHMM_class L prior emission cl"
  fix self'
  assume m: "BaseHMM_m_step L S ?C be bp opt n self = Inr self'"
  then obtain params losses s where
    run: "run_sgd S pair_tree (neg_expected_log_joint L ?C be)
           (SSM_unconstrained_params L self) (be, bp) opt (default_batch_size S) n
           (default_shuffle S) (default_key S) self = Inr ((params, losses), s)"
    and set: "SSM_set_unconstrained_params L params s = Inr self'"
    unfolding BaseHMM_m_step_def
    by (elim ebind_InrE) (auto simp: StandardHMM_class_def)
  have f1: "frame (parameters self) (parameters s)"
    by (rule run_sgd_frame[OF run]) (rule SSM_set_frame(1), erule neg_expected_log_joint_sets)
  from frame_trans[OF f1 SSM_set_frame(1)[OF set]]
  show f: "frame (parameters self) (parameters self')" .
  from frame_concentrations(1,2)[OF f]
  show "is_frozen (hmm_initial_probs_concentration self) \<Longrightarrow>
         hmm_initial_probs_concentration self' = hmm_initial_probs_concentration self"
    "is_frozen (hmm_transition_matrix_concentration self) \<Longrightarrow>
         hmm_transition_matrix_concentration self' = hmm_transition_matrix_concentration self"
    by simp_all
  from SSM_set_frame(2)[OF set]
    map2_bijector_cong[OF frame_concentrations(3)[OF f1], of L params]
  have "map pvalue (filter (\<lambda>p. \<not> is_frozen p) (parameters self'))
           = map2 (\<lambda>p v. tfb_inverse L (bijector p) v)
               (filter (\<lambda>p. \<not> is_frozen p) (parameters self)) params"
    by (simp only:)
  with run show "\<exists>params losses s.
         run_sgd S pair_tree (neg_expected_log_joint L ?C be)
           (SSM_unconstrained_params L self) (be, bp) opt (default_batch_size S) n
           (default_shuffle S) (default_key S) self = Inr ((params, losses), s) \<and>
         map pvalue (filter (\<lambda>p. \<not> is_frozen p) (parameters self'))
           = map2 (\<lambda>p v. tfb_inverse L (bijector p) v)
               (filter (\<lambda>p. \<not> is_frozen p) (parameters self)) params"
    by blast
next
  let ?C = "StandardHMM_class L prior emission cl"
  fix self'
  assume a: "\<not> is_frozen (hmm_initial_probs self) \<and> \<not> is_frozen (hmm_transition_matrix self) \<and>
      StandardHMM_m_step L S ?C be bp opt n self = Inr self'"
  then obtain self1 self2 params losses s where
    s1: "m_step_initial_probs L be bp self = Inr self1"
    and s2: "m_step_transition_matrix L be bp self1 = Inr self2"
    and run: "run_sgd S pair_tree (neg_expected_log_joint_emissions ?C be)
           (SSM_unconstrained_params L self2) (be, bp) opt (default_batch_size S) n
           (default_shuffle S) (default_key S) self2 = Inr ((params, losses), s)"
    and set: "SSM_set_unconstrained_params L params s = Inr self'"
    unfolding StandardHMM_m_step_def m_step_emissions_def
    by (elim conjE ebind_InrE) (auto simp: StandardHMM_class_def)
  from a have f1: "frame (parameters self) (parameters self1)"
    by (intro m_step_initial_probs_frame[OF s1]) simp
  then have "\<not> is_frozen (hmm_transition_matrix self1)"
    using a by (simp add: parameters_def)
  then have f2: "frame (parameters self1) (parameters self2)"
    by (rule m_step_transition_matrix_frame[OF s2])
  have f3: "frame (parameters self2) (parameters s)"
    by (rule run_sgd_frame[OF run])
       (rule SSM_set_frame(1), erule neg_expected_log_joint_emissions_sets)
  note f123 = frame_trans[OF frame_trans[OF f1 f2] f3]
  from frame_trans[OF f123 SSM_set_frame(1)[OF set]]
  show f: "frame (parameters self) (parameters self')" .
  from frame_concentrations(1,2)[OF f]
  show "is_frozen (hmm_initial_probs_concentration self) \<Longrightarrow>
         hmm_initial_probs_concentration self' = hmm_initial_probs_concentration self"
    "is_frozen (hmm_transition_matrix_concentration self) \<Longrightarrow>
         hmm_transition_matrix_concentration self' = hmm_transition_matrix_concentration self"
    by simp_all
  from SSM_set_frame(2)[OF set]
    map2_bijector_cong[OF frame_concentrations(3)[OF f123], of L params]
  have "map pvalue (filter (\<lambda>p. \<not> is_frozen p) (parameters self'))
           = map2 (\<lambda>p v. tfb_inverse L (bijector p) v)
               (filter (\<lambda>p. \<not> is_frozen p) (parameters self)) params"
    by (simp only:)
  with s1 s2 run show "\<exists>self1 self2 params losses s.
         m_step_initial_probs L be bp self = Inr self1 \<and>
         m_step_transition_matrix L be bp self1 = Inr self2 \<and>
         run_sgd S pair_tree (neg_expected_log_joint_emissions ?C be)
           (SSM_unconstrained_params L self2) (be, bp) opt (default_batch_size S) n
           (default_shuffle S) (default_key S) self2 = Inr ((params, losses), s) \<and>
         map pvalue (filter (\<lambda>p. \<not> is_frozen p) (parameters self'))
           = map2 (\<lambda>p v. tfb_inverse L (bijector p) v)
               (filter (\<lambda>p. \<not> is_frozen p) (parameters self)) params"
    by blast
qed

theorem m_step_frame_witness:
  "(\<exists>m. StandardHMM_init ex_initial_probs ex_transition_matrix (11/10) (11/10) = Inr m \<and>
        is_frozen (hmm_initial_probs_concentration m) \<and>
        is_frozen (hmm_transition_matrix_concentration m)) \<and>
   (\<exists>self'. BaseHMM_m_step ex_library ex_settings ex_class ex_batch ex_posteriors
        ex_optimizer 1 ex_hmm = Inr self' \<and>
      hmm_initial_probs_concentration self' = hmm_initial_probs_concentration ex_hmm \<and>
      hmm_transition_matrix_concentration self' = hmm_transition_matrix_concentration ex_hmm) \<and>
   (\<exists>self'. StandardHMM_m_step ex_library ex_settings ex_class ex_batch ex_posteriors
        ex_optimizer 0 ex_hmm = Inr self' \<and>
      hmm_initial_probs_concentration self' = hmm_initial_probs_concentration ex_hmm \<and>
      hmm_transition_matrix_concentration self' = hmm_transition_matrix_concentration ex_hmm)"
proof -
  note t1 = m_step_frame[where ip=ex_initial_probs and tm=ex_transition_matrix and ?c1.0="11/10"
      and ?c2.0="11/10" and L=ex_library and S=ex_settings and prior="\<lambda>self. 0"
      and emission=ex_emission and cl=None and be=ex_batch and bp=ex_posteriors
      and opt=ex_optimizer and n=1 and self=ex_hmm, folded ex_class_def]
  note t0 = m_step_frame[where ip=ex_initial_probs and tm=ex_transition_matrix and ?c1.0="11/10"
      and ?c2.0="11/10" and L=ex_library and S=ex_settings and prior="\<lambda>self. 0"
      and emission=ex_emission and cl=None and be=ex_batch and bp=ex_posteriors
      and opt=ex_optimizer and n=0 and self=ex_hmm, folded ex_class_def]
  have frozen: "is_frozen (hmm_initial_probs_concentration ex_hmm)"
    "is_frozen (hmm_transition_matrix_concentration ex_hmm)"
    "\<not> is_frozen (hmm_initial_probs ex_hmm)" "\<not> is_frozen (hmm_transition_matrix ex_hmm)"
    by (simp_all add: ex_hmm_def Parameter_def)
  obtain m where m: "StandardHMM_init ex_initial_probs ex_transition_matrix (11/10) (11/10) = Inr m"
    by (simp add: StandardHMM_init_def ex_initial_probs_def ex_transition_matrix_def
          of_list_def of_rows_def)
  with t1 have A: "\<exists>m. StandardHMM_init ex_initial_probs ex_transition_matrix (11/10) (11/10) = Inr m \<and>
        is_frozen (hmm_initial_probs_concentration m) \<and>
        is_frozen (hmm_transition_matrix_concentration m)"
    by blast
  from t1 BaseHMM_m_step_ex frozen
  have B: "\<exists>self'. BaseHMM_m_step ex_library ex_settings ex_class ex_batch ex_posteriors
        ex_optimizer 1 ex_hmm = Inr self' \<and>
      hmm_initial_probs_concentration self' = hmm_initial_probs_concentration ex_hmm \<and>
      hmm_transition_matrix_concentration self' = hmm_transition_matrix_concentration ex_hmm"
    by blast
  from StandardHMM_m_step_ex obtain s' where
    s': "StandardHMM_m_step ex_library ex_settings ex_class ex_batch ex_posteriors
      ex_optimizer 0 ex_hmm = Inr s'"
    by blast
  with t0 frozen
  have C: "\<exists>self'. StandardHMM_m_step ex_library ex_settings ex_class ex_batch ex_posteriors
        ex_optimizer 0 ex_hmm = Inr self' \<and>
      hmm_initial_probs_concentration self' = hmm_initial_probs_concentration ex_hmm \<and>
      hmm_transition_matrix_concentration self' = hmm_transition_matrix_concentration ex_hmm"
    by blast
  from A B C show ?thesis by blast
qed

end
